theory Spec2Isabelle
  imports Complex_Main "HOL-Library.Sublist"
begin

section \<open>Python values used by \<^verbatim>\<open>bart_evaluator.py\<close>\<close>

text \<open>
  Exceptions are values.  A computation that may raise returns \<open>py_error + 'a\<close>, with
  \<open>Inl\<close> the exception.  \<open>LibraryError\<close> stands for an exception raised inside one of the
  third-party libraries the script calls (pandas' file reader, transformers, jiwer, ...).
\<close>

datatype py_error = KeyError | TypeError | ValueError | IndexError | LibraryError string

definition bind_err :: "py_error + 'a \<Rightarrow> ('a \<Rightarrow> py_error + 'b) \<Rightarrow> py_error + 'b" where
  "bind_err m f = (case m of Inl e \<Rightarrow> Inl e | Inr x \<Rightarrow> f x)"

text \<open>
  A Python/numpy float, as far as comparisons see it: not-a-number, the two infinities,
  or a finite value.  No arithmetic on floats is modelled.
\<close>

datatype py_float = NaN | NegInf | PosInf | Fin real

text \<open>IEEE \<open>\<le>\<close>: every comparison with NaN is false.\<close>

fun float_le :: "py_float \<Rightarrow> py_float \<Rightarrow> bool" where
  "float_le NaN y = False"
| "float_le x NaN = False"
| "float_le NegInf y = True"
| "float_le x PosInf = True"
| "float_le PosInf y = False"
| "float_le x NegInf = False"
| "float_le (Fin a) (Fin b) = (a \<le> b)"

text \<open>
  A cell of a pandas table is a string or a number; a missing value is the number NaN
  (\<open>isna\<close>).
\<close>

datatype cell = Str string | Num py_float

fun isna :: "cell \<Rightarrow> bool" where
  "isna (Num NaN) = True"
| "isna c = False"

section \<open>Data frames\<close>

text \<open>
  A \<open>DataFrame\<close>: the column names in order, and the rows in order, each row with its
  index label and its cells (parallel to the column names).
\<close>

record frame =
  columns :: "string list"
  rows :: "(nat \<times> cell list) list"

text \<open>The cell of a row under a column name; a row too short for the column holds NaN there.\<close>

definition cell_at :: "string list \<Rightarrow> cell list \<Rightarrow> string \<Rightarrow> cell" where
  "cell_at cols r c = (case map_of (zip cols r) c of Some v \<Rightarrow> v | None \<Rightarrow> Num NaN)"

text \<open>\<^verbatim>\<open>df[c]\<close>: the column as a list of cells; \<open>KeyError\<close> when there is no such column.\<close>

definition getitem :: "frame \<Rightarrow> string \<Rightarrow> py_error + cell list" where
  "getitem df c =
     (if c \<in> set (columns df) then Inr (map (\<lambda>(l, r). cell_at (columns df) r c) (rows df))
      else Inl KeyError)"

text \<open>
  \<^verbatim>\<open>Series.between(left, right)\<close>, both ends inclusive: \<^verbatim>\<open>(s >= left) & (s <= right)\<close>
  element by element.  Comparing a string cell with a number raises \<open>TypeError\<close>.
\<close>

definition between_float :: "py_float \<Rightarrow> py_float \<Rightarrow> py_float \<Rightarrow> bool" where
  "between_float left right x = (float_le left x \<and> float_le x right)"

fun between :: "py_float \<Rightarrow> py_float \<Rightarrow> cell list \<Rightarrow> py_error + bool list" where
  "between left right [] = Inr []"
| "between left right (Str s # cs) = Inl TypeError"
| "between left right (Num x # cs) =
     bind_err (between left right cs) (\<lambda>bs. Inr (between_float left right x # bs))"

text \<open>\<^verbatim>\<open>~s\<close> on a boolean series, and \<^verbatim>\<open>s.sum()\<close> of one (True counts 1).\<close>

definition invert :: "bool list \<Rightarrow> bool list" where
  "invert bs = map Not bs"

fun py_sum :: "bool list \<Rightarrow> int" where
  "py_sum [] = 0"
| "py_sum (b # bs) = (if b then 1 else 0) + py_sum bs"

text \<open>
  \<^verbatim>\<open>np.logical_or.reduce(list_of_series)\<close>: the series are the rows of a two-dimensional
  array, reduced along the first axis, so the result is the element-wise disjunction,
  combined from the left.  (The list reduced in the script always has four members.)
\<close>

fun logical_or_reduce :: "bool list list \<Rightarrow> bool list" where
  "logical_or_reduce [] = []"
| "logical_or_reduce (c # cs) = foldl (\<lambda>acc d. map2 (\<or>) acc d) c cs"

section \<open>The dataset loader\<close>

text \<open>
  \<^verbatim>\<open>df.dropna(subset=subs)\<close> (\<^verbatim>\<open>how='any'\<close>, the default): a row stays when none of its cells
  under the columns \<open>subs\<close> is missing; a name in \<open>subs\<close> that is no column raises
  \<open>KeyError\<close>.  Index labels are kept.
\<close>

definition dropna :: "string list \<Rightarrow> frame \<Rightarrow> py_error + frame" where
  "dropna subs df =
     (if list_all (\<lambda>c. c \<in> set (columns df)) subs
      then Inr (df\<lparr>rows := filter (\<lambda>(l, r). list_all (\<lambda>c. \<not> isna (cell_at (columns df) r c)) subs)
                                  (rows df)\<rparr>)
      else Inl KeyError)"

text \<open>\<^verbatim>\<open>df.reset_index(drop=True)\<close>: the rows are relabelled 0, 1, 2, ... in their order.\<close>

definition reset_index_drop :: "frame \<Rightarrow> frame" where
  "reset_index_drop df = df\<lparr>rows := zip [0..<length (rows df)] (map snd (rows df))\<rparr>"

text \<open>
  The loading step of the script, from the result of \<^verbatim>\<open>pd.read_csv(file_path)\<close> (the file
  reader is pandas' own; it fails when the file is missing or malformed).
\<close>

definition load_data :: "py_error + frame \<Rightarrow> py_error + frame" where
  "load_data read_csv_result =
     bind_err read_csv_result (\<lambda>data.
     bind_err (dropna [''True Transcription'', ''Predicted Transcription''] data) (\<lambda>data.
       Inr (reset_index_drop data)))"

text \<open>A required field of a row is absent when its cell is missing.\<close>

definition absent :: "frame \<Rightarrow> string \<Rightarrow> cell list \<Rightarrow> bool" where
  "absent df field r = isna (cell_at (columns df) r field)"

text \<open>An input of three complete rows and one row without its baseline prediction.\<close>

definition example_table :: frame where
  "example_table =
     \<lparr>columns = [''True Transcription'', ''Predicted Transcription''],
      rows = [(0, [Str ''a cat'', Str ''a cot'']),
              (1, [Str ''hi there'', Str ''hi their'']),
              (2, [Str ''good day'', Num NaN]),
              (3, [Str ''yes'', Str ''yes''])]\<rparr>"

section \<open>\<^verbatim>\<open>count_outliers\<close>\<close>

text \<open>
  One entry of the \<^verbatim>\<open>outlier_conditions\<close> dictionary:
  \<^verbatim>\<open>~df[metric].between(lo, hi)\<close>.
\<close>

definition outlier_condition :: "frame \<Rightarrow> string \<Rightarrow> py_float \<Rightarrow> py_float \<Rightarrow> py_error + bool list" where
  "outlier_condition df metric lo hi =
     bind_err (getitem df metric) (\<lambda>col.
     bind_err (between lo hi col) (\<lambda>inside. Inr (invert inside)))"

text \<open>The dictionary literal, its entries evaluated in the order written.\<close>

definition outlier_conditions :: "frame \<Rightarrow> py_error + (string \<times> bool list) list" where
  "outlier_conditions df =
     bind_err (outlier_condition df ''BLEU'' (Fin 0) (Fin 100)) (\<lambda>b.
     bind_err (outlier_condition df ''WER'' (Fin 0) (Fin 1)) (\<lambda>w.
     bind_err (outlier_condition df ''CER'' (Fin 0) (Fin 1)) (\<lambda>c.
     bind_err (outlier_condition df ''Cosine Similarity'' (Fin 0) (Fin 1)) (\<lambda>s.
       Inr [(''BLEU'', b), (''WER'', w), (''CER'', c), (''Cosine Similarity'', s)]))))"

text \<open>\<^verbatim>\<open>d[k] = v\<close> on an insertion-ordered dictionary.\<close>

fun dict_set :: "('k \<times> 'v) list \<Rightarrow> 'k \<Rightarrow> 'v \<Rightarrow> ('k \<times> 'v) list" where
  "dict_set [] k v = [(k, v)]"
| "dict_set ((k', v') # d) k v = (if k' = k then (k, v) # d else (k', v') # dict_set d k v)"

definition count_outliers :: "frame \<Rightarrow> py_error + (string \<times> int) list" where
  "count_outliers df =
     bind_err (outlier_conditions df) (\<lambda>conds.
       let outlier_counts = map (\<lambda>(metric, cond). (metric, py_sum cond)) conds;
           any_outlier_condition = logical_or_reduce (map snd conds);
           total_outliers = py_sum any_outlier_condition
       in Inr (dict_set outlier_counts ''Total Outliers'' total_outliers))"

section \<open>Strings and \<^verbatim>\<open>get_max_length_from_dir\<close>\<close>

text \<open>
  A Python string is a list of characters; a character of the model is a code point below
  256, so directory names are taken over that range.
\<close>

text \<open>\<^verbatim>\<open>sub in s\<close>: \<open>sub\<close> occurs in \<open>s\<close> as a contiguous substring.\<close>

fun py_in :: "string \<Rightarrow> string \<Rightarrow> bool" where
  "py_in sub [] = (sub = [])"
| "py_in sub (c # cs) = (prefix sub (c # cs) \<or> py_in sub cs)"

text \<open>
  \<^verbatim>\<open>s.split(sep)\<close>: the occurrences of \<open>sep\<close> are found from the left and do not overlap;
  \<open>cur\<close> is the piece collected since the last separator.  An empty separator raises
  \<open>ValueError\<close>.
\<close>

fun split_from :: "string \<Rightarrow> string \<Rightarrow> string \<Rightarrow> string list" where
  "split_from sep cur [] = [cur]"
| "split_from sep cur (c # cs) =
     (if prefix sep (c # cs) then cur # split_from sep [] (drop (length sep - 1) cs)
      else split_from sep (cur @ [c]) cs)"

definition py_split :: "string \<Rightarrow> string \<Rightarrow> py_error + string list" where
  "py_split s sep = (if sep = [] then Inl ValueError else Inr (split_from sep [] s))"

text \<open>\<^verbatim>\<open>xs[-1]\<close>: \<open>IndexError\<close> on the empty list.\<close>

definition getitem_last :: "'a list \<Rightarrow> py_error + 'a" where
  "getitem_last xs = (if xs = [] then Inl IndexError else Inr (last xs))"

text \<open>
  \<^verbatim>\<open>int(u)\<close> on a string, in base 10, after CPython's \<^verbatim>\<open>PyLong_FromUnicodeObject\<close> and
  \<^verbatim>\<open>PyLong_FromString\<close>.  \<open>is_space\<close> is \<^verbatim>\<open>Py_ISSPACE\<close> (tab, line feed, vertical tab,
  form feed, carriage return, space); a digit is one of \<open>0\<close> to \<open>9\<close>.
\<close>

definition is_space :: "char \<Rightarrow> bool" where
  "is_space c = (c \<in> set [CHR 0x09, CHR 0x0A, CHR 0x0B, CHR 0x0C, CHR 0x0D, CHR '' ''])"

definition is_digit :: "char \<Rightarrow> bool" where
  "is_digit c = (48 \<le> (of_char c :: nat) \<and> (of_char c :: nat) \<le> 57)"

definition digit_value :: "char \<Rightarrow> nat" where
  "digit_value c = of_char c - 48"

text \<open>
  A string with a character beyond ASCII is first rewritten: characters below 127 are kept,
  a Unicode space becomes an ASCII space, a Unicode decimal digit its ASCII digit, and the
  first other character becomes \<open>?\<close> and ends the text.  Among the code points below 256,
  the Unicode spaces beyond ASCII are U+0085 and U+00A0 and there is no decimal digit
  beyond ASCII.
\<close>

fun transform_decimal_and_space :: "string \<Rightarrow> string" where
  "transform_decimal_and_space [] = []"
| "transform_decimal_and_space (ch # u) =
     (if (of_char ch :: nat) < 127 then ch # transform_decimal_and_space u
      else if ch = CHR 0x85 \<or> ch = CHR 0xA0 then CHR '' '' # transform_decimal_and_space u
      else [CHR ''?''])"

definition to_ascii :: "string \<Rightarrow> string" where
  "to_ascii u = (if list_all (\<lambda>ch. (of_char ch :: nat) < 128) u then u
                 else transform_decimal_and_space u)"

text \<open>
  The scan over digits and underscores: two underscores in a row and a trailing underscore
  are refused; \<open>prev\<close> is the character before.
\<close>

fun scan_ok :: "char \<Rightarrow> string \<Rightarrow> bool" where
  "scan_ok prev [] = (prev \<noteq> CHR ''_'')"
| "scan_ok prev (c # cs) = (if c = CHR ''_'' \<and> prev = CHR ''_'' then False else scan_ok c cs)"

definition decimal_value :: "string \<Rightarrow> nat" where
  "decimal_value ds = foldl (\<lambda>acc c. 10 * acc + digit_value c) 0 ds"

text \<open>
  The conversion: leading spaces, an optional sign, no leading underscore, the scanned run
  of digits and underscores, the limit on the number of digits (applied beyond 640 digits
  when the interpreter's \<^verbatim>\<open>sys.get_int_max_str_digits()\<close>, here \<open>max_str_digits\<close>, is not 0),
  at least one digit, trailing spaces, and nothing after them.  Every failure is a
  \<open>ValueError\<close>.
\<close>

definition py_int :: "nat \<Rightarrow> string \<Rightarrow> py_error + int" where
  "py_int max_str_digits u =
     (let str = dropWhile is_space (to_ascii u);
          (sign, str) = (case str of
                           [] \<Rightarrow> (1, str)
                         | c # r \<Rightarrow> if c = CHR ''+'' then (1, r)
                                    else if c = CHR ''-'' then (- 1, r) else (1, str));
          scanned = takeWhile (\<lambda>c. is_digit c \<or> c = CHR ''_'') str;
          rest = dropWhile (\<lambda>c. is_digit c \<or> c = CHR ''_'') str;
          digits = filter is_digit scanned
      in if take 1 str = ''_'' then Inl ValueError
         else if \<not> scan_ok (CHR 0x00) scanned then Inl ValueError
         else if 640 < length digits \<and> 0 < max_str_digits \<and> max_str_digits < length digits
           then Inl ValueError
         else if scanned = [] then Inl ValueError
         else if dropWhile is_space rest \<noteq> [] then Inl ValueError
         else Inr (sign * int (decimal_value digits)))"

text \<open>
  The function of the script.  The \<^verbatim>\<open>try\<close> block covers the split, the index and the
  conversion; \<^verbatim>\<open>except ValueError\<close> catches that exception only.  The first parameter is
  the interpreter's digit limit (4300 unless reconfigured, 0 for none); \<open>dflt\<close> is the
  parameter \<^verbatim>\<open>default\<close>, which the call site sets to 128.
\<close>

definition get_max_length_from_dir :: "nat \<Rightarrow> string \<Rightarrow> int \<Rightarrow> py_error + int" where
  "get_max_length_from_dir max_str_digits dir_name dflt =
     (if py_in ''_ml'' dir_name then
        (case bind_err (py_split dir_name ''_ml'') (\<lambda>parts.
              bind_err (getitem_last parts) (\<lambda>max_length_str.
              py_int max_str_digits max_length_str)) of
           Inr n \<Rightarrow> Inr n
         | Inl ValueError \<Rightarrow> Inr dflt
         | Inl e \<Rightarrow> Inl e)
      else Inr dflt)"

section \<open>The evaluation run\<close>

text \<open>
  A Python dictionary with string keys, in insertion order.  \<^verbatim>\<open>pd.DataFrame(records)\<close> of a
  list of dictionaries: the columns are the keys in the order of their first appearance
  (here all records have the same keys, in the same order), the rows are labelled
  0, 1, 2, ..., and a key absent from a record gives NaN.
\<close>

type_synonym py_dict = "(string \<times> cell) list"

definition frame_columns :: "py_dict list \<Rightarrow> string list" where
  "frame_columns records =
     foldl (\<lambda>cols d. cols @ filter (\<lambda>k. k \<notin> set cols) (map fst d)) [] records"

definition DataFrame :: "py_dict list \<Rightarrow> frame" where
  "DataFrame records =
     (let cols = frame_columns records
      in \<lparr>columns = cols,
          rows = zip [0..<length records]
                   (map (\<lambda>d. map (\<lambda>c. case map_of d c of Some v \<Rightarrow> v | None \<Rightarrow> Num NaN) cols)
                      records)\<rparr>)"

text \<open>
  What the process does to the outside: a line printed on standard output, or a table
  written to a file by \<^verbatim>\<open>to_csv(path, index=False)\<close>, given by its header and its rows of
  cells (the text rendering of the cells is pandas' own).  The process ends by running to
  the end, by \<^verbatim>\<open>exit()\<close> with its exit status, or by an exception that nothing catches.
  A run is the list of events so far and either the way the process ended or a value to
  go on with.  The progress bars (standard error) and the \<^verbatim>\<open>nltk.download\<close> calls made
  when the module is loaded are not part of the model.
\<close>

datatype event = Print string | WriteCsv string "string list" "cell list list"

datatype outcome = Exited int | Raised py_error

type_synonym 'a run = "event list \<times> (outcome + 'a)"

definition emit :: "event \<Rightarrow> unit run" where
  "emit e = ([e], Inr ())"

definition lift_err :: "py_error + 'a \<Rightarrow> 'a run" where
  "lift_err m = ([], case m of Inl e \<Rightarrow> Inl (Raised e) | Inr x \<Rightarrow> Inr x)"

definition then_run :: "'a run \<Rightarrow> ('a \<Rightarrow> 'b run) \<Rightarrow> 'b run" where
  "then_run m f =
     (case m of
        (es, Inl out) \<Rightarrow> (es, Inl out)
      | (es, Inr x) \<Rightarrow> (case f x of (es', r) \<Rightarrow> (es @ es', r)))"

fun for_each :: "('a \<Rightarrow> unit run) \<Rightarrow> 'a list \<Rightarrow> unit run" where
  "for_each body [] = ([], Inr ())"
| "for_each body (x # xs) = then_run (body x) (\<lambda>_. for_each body xs)"

definition to_csv :: "frame \<Rightarrow> string \<Rightarrow> event" where
  "to_csv df path = WriteCsv path (columns df) (map snd (rows df))"

text \<open>\<^verbatim>\<open>str(i)\<close> of an integer, as the f-string prints it.\<close>

definition digit_char :: "nat \<Rightarrow> char" where
  "digit_char n = char_of (48 + n)"

function str_nat :: "nat \<Rightarrow> string" where
  "str_nat n = (if n < 10 then [digit_char n] else str_nat (n div 10) @ [digit_char (n mod 10)])"
  by pat_completeness auto
termination
  by (relation "measure (\<lambda>n. n)") auto

declare str_nat.simps [simp del]

definition str_int :: "int \<Rightarrow> string" where
  "str_int i = (if i < 0 then ''-'' @ str_nat (nat (- i)) else str_nat (nat i))"

text \<open>
  The collaborators of the script, which are not part of it: the interpreter's digit limit,
  pandas' file reader, the TF-IDF vectorizer (fitting, and transforming the two text
  lists), the directory listing, the loading of a tokenizer and model (with the move to
  the device), the generation of one corrected text (tokenize, generate, decode), the four
  metric functions (\<open>cosine\<close> takes the index of the reference vector), and pandas' mean
  and median of a numeric column.
\<close>

record externals =
  max_str_digits :: nat
  read_csv :: "string \<Rightarrow> py_error + frame"
  tfidf_fit :: "cell list \<Rightarrow> py_error + unit"
  listdir :: "string list"
  isdir :: "string \<Rightarrow> bool"
  load_model :: "string \<Rightarrow> py_error + unit"
  generate :: "string \<Rightarrow> int \<Rightarrow> cell \<Rightarrow> py_error + string"
  wer :: "cell \<Rightarrow> string \<Rightarrow> py_error + py_float"
  cer :: "cell \<Rightarrow> string \<Rightarrow> py_error + py_float"
  bleu :: "cell \<Rightarrow> string \<Rightarrow> py_error + py_float"
  cosine :: "nat \<Rightarrow> string \<Rightarrow> py_error + py_float"
  mean :: "py_float list \<Rightarrow> py_float"
  median :: "py_float list \<Rightarrow> py_float"

text \<open>The generation loop: one corrected text per baseline prediction, in order.\<close>

fun generate_all :: "externals \<Rightarrow> string \<Rightarrow> int \<Rightarrow> cell list \<Rightarrow> py_error + string list" where
  "generate_all ext model_dir max_length [] = Inr []"
| "generate_all ext model_dir max_length (pred_text # rest) =
     bind_err (generate ext model_dir max_length pred_text) (\<lambda>corrected_text.
     bind_err (generate_all ext model_dir max_length rest) (\<lambda>bart_predictions.
       Inr (corrected_text # bart_predictions)))"

text \<open>\<^verbatim>\<open>xs[i]\<close> for \<open>i \<ge> 0\<close>.\<close>

definition getitem_at :: "'a list \<Rightarrow> nat \<Rightarrow> py_error + 'a" where
  "getitem_at xs i = (if i < length xs then Inr (xs ! i) else Inl IndexError)"

text \<open>The dictionary appended to \<^verbatim>\<open>results_per_sample\<close> for one sample.\<close>

definition sample_record ::
  "string \<Rightarrow> cell \<Rightarrow> cell \<Rightarrow> string \<Rightarrow> py_float \<Rightarrow> py_float \<Rightarrow> py_float \<Rightarrow> py_float \<Rightarrow> py_dict" where
  "sample_record model_dir ref original_prediction bart_pred sample_wer sample_cer sample_bleu
     sample_cosine =
     [(''Model'', Str model_dir),
      (''True Transcription'', ref),
      (''Original Prediction'', original_prediction),
      (''BART Corrected'', Str bart_pred),
      (''WER'', Num sample_wer),
      (''CER'', Num sample_cer),
      (''BLEU'', Num sample_bleu),
      (''Cosine Similarity'', Num sample_cosine)]"

text \<open>
  The metric loop over \<^verbatim>\<open>enumerate(zip(references, bart_predictions))\<close>; \<open>i\<close> is the index
  of the first pair of the list.
\<close>

fun score_samples ::
  "externals \<Rightarrow> string \<Rightarrow> cell list \<Rightarrow> nat \<Rightarrow> (cell \<times> string) list \<Rightarrow> py_error + py_dict list" where
  "score_samples ext model_dir original_predictions i [] = Inr []"
| "score_samples ext model_dir original_predictions i ((ref, bart_pred) # rest) =
     bind_err (wer ext ref bart_pred) (\<lambda>sample_wer.
     bind_err (cer ext ref bart_pred) (\<lambda>sample_cer.
     bind_err (bleu ext ref bart_pred) (\<lambda>sample_bleu.
     bind_err (cosine ext i bart_pred) (\<lambda>sample_cosine.
     bind_err (getitem_at original_predictions i) (\<lambda>original_prediction.
     bind_err (score_samples ext model_dir original_predictions (Suc i) rest) (\<lambda>results_per_sample.
       Inr (sample_record model_dir ref original_prediction bart_pred
              sample_wer sample_cer sample_bleu sample_cosine # results_per_sample)))))))"

text \<open>
  The summary table: for each metric the mean and the median of its column, over all rows.
  A column that is missing raises \<open>KeyError\<close>.
\<close>

fun numeric :: "cell list \<Rightarrow> py_error + py_float list" where
  "numeric [] = Inr []"
| "numeric (Str s # cs) = Inl TypeError"
| "numeric (Num x # cs) = bind_err (numeric cs) (\<lambda>xs. Inr (x # xs))"

fun summary_rows :: "externals \<Rightarrow> frame \<Rightarrow> string list \<Rightarrow> py_error + cell list list" where
  "summary_rows ext df [] = Inr []"
| "summary_rows ext df (metric # metrics) =
     bind_err (getitem df metric) (\<lambda>col.
     bind_err (numeric col) (\<lambda>xs.
     bind_err (summary_rows ext df metrics) (\<lambda>rest.
       Inr ([Str metric, Num (mean ext xs), Num (median ext xs)] # rest))))"

text \<open>The three tables of one model, written in this order.\<close>

definition write_reports :: "externals \<Rightarrow> string \<Rightarrow> py_dict list \<Rightarrow> unit run" where
  "write_reports ext model_dir results_per_sample =
     (let detailed_results_df = DataFrame results_per_sample;
          output_file = model_dir @ ''_detailed_evaluation.csv'';
          summary_file = model_dir @ ''_summary_evaluation.csv'';
          outlier_counts_file = model_dir @ ''_outlier_counts.csv''
      in
      then_run (emit (Print (''Saving per-sample evaluation results to '' @ output_file @ ''...''))) (\<lambda>_.
      then_run (emit (to_csv detailed_results_df output_file)) (\<lambda>_.
      then_run (lift_err (summary_rows ext detailed_results_df
                            [''WER'', ''CER'', ''BLEU'', ''Cosine Similarity''])) (\<lambda>summary.
      let summary_df = \<lparr>columns = [''Metric'', ''Mean (All Data)'', ''Median (All Data)''],
                         rows = zip [0..<length summary] summary\<rparr> in
      then_run (emit (Print (''Saving summary (including outliers) results to '' @ summary_file @ ''...''))) (\<lambda>_.
      then_run (emit (to_csv summary_df summary_file)) (\<lambda>_.
      then_run (lift_err (count_outliers detailed_results_df)) (\<lambda>outlier_counts.
      let outlier_counts_df =
            \<lparr>columns = [''Metric'', ''Outlier Count''],
             rows = zip [0..<length outlier_counts]
                      (map (\<lambda>(metric, n). [Str metric, Num (Fin (real_of_int n))]) outlier_counts)\<rparr> in
      then_run (emit (Print (''Saving outlier counts to '' @ outlier_counts_file @ ''...''))) (\<lambda>_.
      emit (to_csv outlier_counts_df outlier_counts_file)))))))))"

text \<open>The body of the loop over the model directories.\<close>

definition evaluate_model :: "externals \<Rightarrow> cell list \<Rightarrow> cell list \<Rightarrow> string \<Rightarrow> unit run" where
  "evaluate_model ext references original_predictions model_dir =
     then_run (emit (Print (CHR 0x0A # ''Evaluating BART model in: '' @ model_dir))) (\<lambda>_.
     then_run (lift_err (load_model ext model_dir)) (\<lambda>_.
     then_run (lift_err (get_max_length_from_dir (max_str_digits ext) model_dir 128)) (\<lambda>max_length.
     then_run (emit (Print (''Using max_length='' @ str_int max_length @ '' for generation...''))) (\<lambda>_.
     then_run (emit (Print ''Generating corrected predictions...'')) (\<lambda>_.
     then_run (lift_err (generate_all ext model_dir max_length original_predictions)) (\<lambda>bart_predictions.
     then_run (emit (Print ''Computing metrics for each sample...'')) (\<lambda>_.
     then_run (lift_err (score_samples ext model_dir original_predictions 0
                           (zip references bart_predictions))) (\<lambda>results_per_sample.
       write_reports ext model_dir results_per_sample))))))))"

text \<open>The script: loading, the vector space, discovery of the model directories, evaluation.\<close>

definition main :: "externals \<Rightarrow> unit run" where
  "main ext =
     then_run (emit (Print ''Loading test data...'')) (\<lambda>_.
     then_run (lift_err (load_data (read_csv ext ''llm_evaluation_summary.csv''))) (\<lambda>data.
     then_run (lift_err (getitem data ''True Transcription'')) (\<lambda>references.
     then_run (lift_err (getitem data ''Predicted Transcription'')) (\<lambda>original_predictions.
     then_run (lift_err (tfidf_fit ext (references @ original_predictions))) (\<lambda>_.
     let model_dirs = filter (\<lambda>d. isdir ext d \<and> prefix ''bart_minimal'' d) (listdir ext) in
     if model_dirs = [] then
       then_run (emit (Print ''No BART model directories found matching 'bart_minimal*'. Exiting.''))
         (\<lambda>_. ([], Inl (Exited 0)))
     else
       then_run (for_each (evaluate_model ext references original_predictions) model_dirs) (\<lambda>_.
       emit (Print (CHR 0x0A # ''BART Evaluation complete and saved.''))))))))"


text \<open>Collaborators for a run over \<open>example_table\<close> with one model directory.\<close>

definition example_externals :: externals where
  "example_externals =
     \<lparr>max_str_digits = 4300,
      read_csv = (\<lambda>path. Inr example_table),
      tfidf_fit = (\<lambda>texts. Inr ()),
      listdir = [''notes.txt'', ''bart_minimal_ml32''],
      isdir = (\<lambda>d. d = ''bart_minimal_ml32''),
      load_model = (\<lambda>d. Inr ()),
      generate = (\<lambda>d n text. Inr ''a cat''),
      wer = (\<lambda>ref hyp. Inr (Fin 0)),
      cer = (\<lambda>ref hyp. Inr (Fin 0)),
      bleu = (\<lambda>ref hyp. Inr (Fin 100)),
      cosine = (\<lambda>i hyp. Inr (Fin 1)),
      mean = (\<lambda>xs. Fin 0),
      median = (\<lambda>xs. Fin 0)\<rparr>"

text \<open>
  A sample violates a metric's interval when its value is a number outside the closed
  interval; this is the reading of "outlier" the properties below are stated with.
\<close>

definition violates :: "frame \<Rightarrow> string \<Rightarrow> py_float \<Rightarrow> py_float \<Rightarrow> nat \<times> cell list \<Rightarrow> bool" where
  "violates df metric lo hi row =
     (case cell_at (columns df) (snd row) metric of
        Num x \<Rightarrow> \<not> between_float lo hi x
      | Str s \<Rightarrow> False)"

text \<open>A detailed table of three samples, used to exercise the theorems.\<close>

definition example_metrics :: frame where
  "example_metrics =
     \<lparr>columns = [''Model'', ''True Transcription'', ''Original Prediction'', ''BART Corrected'',
                  ''WER'', ''CER'', ''BLEU'', ''Cosine Similarity''],
      rows = [(0, [Str ''bart_minimal'', Str ''a cat'', Str ''a cot'', Str ''a cat'',
                   Num (Fin 0), Num (Fin 0), Num (Fin 100), Num (Fin 1)]),
              (1, [Str ''bart_minimal'', Str ''hi'', Str ''ho'', Str ''ho ho ho ho'',
                   Num (Fin 4), Num (Fin 5), Num (Fin 0), Num (Fin 0)]),
              (2, [Str ''bart_minimal'', Str ''yes'', Str ''yes'', Str ''yes'',
                   Num (Fin 0), Num (Fin 0), Num NaN, Num (Fin 1)])]\<rparr>"


section \<open>Properties of \<^verbatim>\<open>count_outliers\<close>\<close>

lemma bind_err_Inr_iff: "bind_err m f = Inr y \<longleftrightarrow> (\<exists>x. m = Inr x \<and> f x = Inr y)"
  by (cases m) (simp_all add: bind_err_def)

lemma between_Inr:
  "between lo hi cs = Inr bs \<Longrightarrow>
   invert bs = map (\<lambda>c. case c of Num x \<Rightarrow> \<not> between_float lo hi x | Str s \<Rightarrow> False) cs"
proof (induction cs arbitrary: bs)
  case Nil
  then show ?case by (simp add: invert_def)
next
  case (Cons c cs)
  show ?case
  proof (cases c)
    case (Str s)
    with Cons.prems show ?thesis by simp
  next
    case (Num x)
    with Cons.prems obtain bs' where b: "between lo hi cs = Inr bs'" and e: "bs = between_float lo hi x # bs'"
      by (auto simp: bind_err_Inr_iff)
    from Cons.IH [OF b] e Num show ?thesis by (simp add: invert_def)
  qed
qed

lemma outlier_condition_Inr:
  assumes "outlier_condition df metric lo hi = Inr cond"
  shows "cond = map (violates df metric lo hi) (rows df)"
proof -
  from assms obtain col inside where g: "getitem df metric = Inr col"
    and b: "between lo hi col = Inr inside" and c: "cond = invert inside"
    by (auto simp: outlier_condition_def bind_err_Inr_iff)
  from g have col: "col = map (\<lambda>(l, r). cell_at (columns df) r metric) (rows df)"
    by (simp add: getitem_def split: if_splits)
  from between_Inr [OF b] c col show ?thesis
    by (simp add: violates_def split_def comp_def)
qed

lemma map2_or_map: "map2 (\<or>) (map f xs) (map g xs) = map (\<lambda>x. f x \<or> g x) xs"
  by (induction xs) simp_all

lemma logical_or_reduce_four:
  "logical_or_reduce [map f1 xs, map f2 xs, map f3 xs, map f4 xs] =
   map (\<lambda>x. f1 x \<or> f2 x \<or> f3 x \<or> f4 x) xs"
  by (simp add: map2_or_map)

lemma py_sum_map: "py_sum (map P xs) = int (length (filter P xs))"
  by (induction xs) simp_all

lemma py_sum_bounds: "0 \<le> py_sum bs \<and> py_sum bs \<le> int (length bs)"
  by (induction bs) simp_all

lemma py_sum_or_ge:
  "py_sum (map f xs) \<le> py_sum (map (\<lambda>x. f x \<or> g x \<or> h x \<or> k x) xs)"
  "py_sum (map g xs) \<le> py_sum (map (\<lambda>x. f x \<or> g x \<or> h x \<or> k x) xs)"
  "py_sum (map h xs) \<le> py_sum (map (\<lambda>x. f x \<or> g x \<or> h x \<or> k x) xs)"
  "py_sum (map k xs) \<le> py_sum (map (\<lambda>x. f x \<or> g x \<or> h x \<or> k x) xs)"
  by (induction xs) auto

lemma py_sum_or_le:
  "py_sum (map (\<lambda>x. f x \<or> g x \<or> h x \<or> k x) xs)
     \<le> py_sum (map f xs) + py_sum (map g xs) + py_sum (map h xs) + py_sum (map k xs)"
proof (induction xs)
  case Nil
  show ?case by simp
next
  case (Cons x xs)
  have nn: "0 \<le> py_sum (map f xs)" "0 \<le> py_sum (map g xs)"
    "0 \<le> py_sum (map h xs)" "0 \<le> py_sum (map k xs)"
    using py_sum_bounds by blast+
  with Cons show ?case by auto
qed

lemma outlier_conditions_Inr:
  assumes "outlier_conditions df = Inr conds"
  shows "conds = [(''BLEU'', map (violates df ''BLEU'' (Fin 0) (Fin 100)) (rows df)),
                  (''WER'', map (violates df ''WER'' (Fin 0) (Fin 1)) (rows df)),
                  (''CER'', map (violates df ''CER'' (Fin 0) (Fin 1)) (rows df)),
                  (''Cosine Similarity'', map (violates df ''Cosine Similarity'' (Fin 0) (Fin 1)) (rows df))]"
proof -
  from assms obtain b w c s where
    "outlier_condition df ''BLEU'' (Fin 0) (Fin 100) = Inr b"
    "outlier_condition df ''WER'' (Fin 0) (Fin 1) = Inr w"
    "outlier_condition df ''CER'' (Fin 0) (Fin 1) = Inr c"
    "outlier_condition df ''Cosine Similarity'' (Fin 0) (Fin 1) = Inr s"
    "conds = [(''BLEU'', b), (''WER'', w), (''CER'', c), (''Cosine Similarity'', s)]"
    unfolding outlier_conditions_def bind_err_Inr_iff by auto
  then show ?thesis by (simp add: outlier_condition_Inr)
qed

lemma count_outliers_Inr:
  assumes "count_outliers df = Inr oc"
  shows "oc = [(''BLEU'', py_sum (map (violates df ''BLEU'' (Fin 0) (Fin 100)) (rows df))),
               (''WER'', py_sum (map (violates df ''WER'' (Fin 0) (Fin 1)) (rows df))),
               (''CER'', py_sum (map (violates df ''CER'' (Fin 0) (Fin 1)) (rows df))),
               (''Cosine Similarity'', py_sum (map (violates df ''Cosine Similarity'' (Fin 0) (Fin 1)) (rows df))),
               (''Total Outliers'', py_sum (map (\<lambda>row.
                   violates df ''BLEU'' (Fin 0) (Fin 100) row \<or> violates df ''WER'' (Fin 0) (Fin 1) row \<or>
                   violates df ''CER'' (Fin 0) (Fin 1) row \<or> violates df ''Cosine Similarity'' (Fin 0) (Fin 1) row)
                   (rows df)))]"
proof -
  from assms obtain conds where c: "outlier_conditions df = Inr conds"
    and oc: "oc = dict_set (map (\<lambda>(metric, cond). (metric, py_sum cond)) conds) ''Total Outliers''
                    (py_sum (logical_or_reduce (map snd conds)))"
    by (auto simp: count_outliers_def bind_err_Inr_iff Let_def)
  show ?thesis
    unfolding oc outlier_conditions_Inr [OF c]
    by (simp add: map2_or_map)
qed

lemma example_conditions:
  "outlier_conditions example_metrics =
     Inr [(''BLEU'', [False, False, True]), (''WER'', [False, True, False]),
          (''CER'', [False, True, False]), (''Cosine Similarity'', [False, False, False])]"
  by (simp add: outlier_conditions_def outlier_condition_def getitem_def example_metrics_def
      cell_at_def bind_err_def between_float_def invert_def)

lemma example_counts:
  "count_outliers example_metrics =
     Inr [(''BLEU'', 1), (''WER'', 1), (''CER'', 1), (''Cosine Similarity'', 0),
          (''Total Outliers'', 2)]"
  by (simp add: count_outliers_def example_conditions bind_err_def)

text \<open>
  Claim C5.  Whenever \<^verbatim>\<open>count_outliers\<close> returns, its dictionary has the five entries
  BLEU, WER, CER, Cosine Similarity and Total Outliers, in this order; the total is at
  least the largest of the four per-metric counts and at most their sum; and the total is
  the number of samples that violate at least one of the four intervals, so that a sample
  violating several intervals is counted once.
\<close>

theorem count_outliers_total_consistent:
  assumes "count_outliers df = Inr oc"
  shows "\<exists>b w c s t.
           oc = [(''BLEU'', b), (''WER'', w), (''CER'', c), (''Cosine Similarity'', s),
                 (''Total Outliers'', t)] \<and>
           max (max b w) (max c s) \<le> t \<and> t \<le> b + w + c + s \<and>
           t = int (length (filter (\<lambda>row.
                 violates df ''BLEU'' (Fin 0) (Fin 100) row \<or> violates df ''WER'' (Fin 0) (Fin 1) row \<or>
                 violates df ''CER'' (Fin 0) (Fin 1) row \<or>
                 violates df ''Cosine Similarity'' (Fin 0) (Fin 1) row) (rows df)))"
proof -
  let ?b = "violates df ''BLEU'' (Fin 0) (Fin 100)"
  let ?w = "violates df ''WER'' (Fin 0) (Fin 1)"
  let ?c = "violates df ''CER'' (Fin 0) (Fin 1)"
  let ?s = "violates df ''Cosine Similarity'' (Fin 0) (Fin 1)"
  let ?any = "\<lambda>row. ?b row \<or> ?w row \<or> ?c row \<or> ?s row"
  have lower: "max (max (py_sum (map ?b (rows df))) (py_sum (map ?w (rows df))))
                   (max (py_sum (map ?c (rows df))) (py_sum (map ?s (rows df))))
                 \<le> py_sum (map ?any (rows df))"
    using py_sum_or_ge [where f = ?b and g = ?w and h = ?c and k = ?s and xs = "rows df"] by simp
  have upper: "py_sum (map ?any (rows df))
                 \<le> py_sum (map ?b (rows df)) + py_sum (map ?w (rows df))
                   + py_sum (map ?c (rows df)) + py_sum (map ?s (rows df))"
    by (rule py_sum_or_le)
  have once: "py_sum (map ?any (rows df)) = int (length (filter ?any (rows df)))"
    by (rule py_sum_map)
  from count_outliers_Inr [OF assms] lower upper once show ?thesis
    by blast
qed

theorem count_outliers_total_consistent_witness:
  "count_outliers example_metrics =
     Inr [(''BLEU'', 1), (''WER'', 1), (''CER'', 1), (''Cosine Similarity'', 0),
          (''Total Outliers'', 2)] \<and>
   max (max (1::int) 1) (max 1 0) \<le> 2 \<and> (2::int) \<le> 1 + 1 + 1 + 0 \<and>
   (2::int) = int (length (filter (\<lambda>row.
       violates example_metrics ''BLEU'' (Fin 0) (Fin 100) row \<or>
       violates example_metrics ''WER'' (Fin 0) (Fin 1) row \<or>
       violates example_metrics ''CER'' (Fin 0) (Fin 1) row \<or>
       violates example_metrics ''Cosine Similarity'' (Fin 0) (Fin 1) row) (rows example_metrics)))"
  using count_outliers_total_consistent [OF example_counts] example_counts by simp




section \<open>Properties of \<^verbatim>\<open>get_max_length_from_dir\<close>\<close>

lemma split_from_nonempty: "split_from sep cur s \<noteq> []"
  by (induction sep cur s rule: split_from.induct) simp_all

lemma py_int_raises_only_ValueError: "py_int msd u = Inl e \<Longrightarrow> e = ValueError"
  by (auto simp: py_int_def Let_def split: if_splits prod.splits)

lemma py_in_iff: "py_in sub s \<longleftrightarrow> (\<exists>p t. s = p @ sub @ t)"
proof (induction s)
  case Nil
  show ?case by auto
next
  case (Cons c cs)
  show ?case
  proof
    assume "py_in sub (c # cs)"
    then consider "prefix sub (c # cs)" | "py_in sub cs" by auto
    then show "\<exists>p t. c # cs = p @ sub @ t"
    proof cases
      case 1
      then obtain t where "c # cs = sub @ t" by (auto simp: prefix_def)
      then have "c # cs = [] @ sub @ t" by simp
      then show ?thesis by blast
    next
      case 2
      with Cons obtain p t where "cs = p @ sub @ t" by blast
      then have "c # cs = (c # p) @ sub @ t" by simp
      then show ?thesis by blast
    qed
  next
    assume "\<exists>p t. c # cs = p @ sub @ t"
    then obtain p t where e: "c # cs = p @ sub @ t" by blast
    show "py_in sub (c # cs)"
    proof (cases p)
      case Nil
      with e have "prefix sub (c # cs)" by (simp add: prefix_def)
      then show ?thesis by simp
    next
      case (Cons a p')
      with e have "cs = p' @ sub @ t" by simp
      with Cons.IH have "py_in sub cs" by blast
      then show ?thesis by simp
    qed
  qed
qed

lemma split_from_no_sep: "\<not> py_in sep s \<Longrightarrow> split_from sep cur s = [cur @ s]"
  by (induction s arbitrary: cur) auto

lemma split_from_last_marker:
  "\<not> py_in ''_ml'' tok \<Longrightarrow> last (split_from ''_ml'' cur (pre @ ''_ml'' @ tok)) = tok"
proof (induction pre arbitrary: cur rule: length_induct)
  case (1 pre)
  show ?case
  proof (cases pre)
    case Nil
    with 1(2) show ?thesis by (simp add: split_from_no_sep)
  next
    case (Cons c p)
    let ?s = "p @ ''_ml'' @ tok"
    have whole: "pre @ ''_ml'' @ tok = c # ?s" using Cons by simp
    show ?thesis
    proof (cases "prefix ''_ml'' (c # ?s)")
      case False
      then have "split_from ''_ml'' cur (c # ?s) = split_from ''_ml'' (cur @ [c]) ?s"
        by (simp only: split_from.simps if_False)
      moreover have "length p < length pre" using Cons by simp
      ultimately show ?thesis using 1 whole by simp
    next
      case True
      then have step: "split_from ''_ml'' cur (c # ?s)
                         = cur # split_from ''_ml'' [] (drop (length ''_ml'' - 1) ?s)"
        by (simp only: split_from.simps if_True)
      from True have pp: "prefix ''ml'' ?s" by auto
      then obtain p' where p: "p = ''ml'' @ p'"
        by (cases p; cases "tl p") auto
      have d: "drop (length ''_ml'' - 1) ?s = p' @ ''_ml'' @ tok"
        unfolding p by simp
      have "length p' < length pre" using Cons p by simp
      then have "last (split_from ''_ml'' [] (p' @ ''_ml'' @ tok)) = tok"
        using 1 by blast
      then show ?thesis
        unfolding whole step d using split_from_nonempty by simp
    qed
  qed
qed


lemma get_max_length_from_dir_eq:
  "get_max_length_from_dir msd d dflt =
     Inr (if py_in ''_ml'' d
          then (case py_int msd (last (split_from ''_ml'' [] d)) of Inr n \<Rightarrow> n | Inl e \<Rightarrow> dflt)
          else dflt)"
proof (cases "py_int msd (last (split_from ''_ml'' [] d))")
  case (Inl e)
  then have "e = ValueError" by (rule py_int_raises_only_ValueError)
  with Inl show ?thesis
    by (simp add: get_max_length_from_dir_def py_split_def getitem_last_def bind_err_def
        split_from_nonempty)
next
  case (Inr n)
  then show ?thesis
    by (simp add: get_max_length_from_dir_def py_split_def getitem_last_def bind_err_def
        split_from_nonempty)
qed

lemma get_max_length_from_dir_token:
  assumes "\<not> py_in ''_ml'' tok"
  shows "get_max_length_from_dir msd (pre @ ''_ml'' @ tok) dflt =
           Inr (case py_int msd tok of Inr n \<Rightarrow> n | Inl e \<Rightarrow> dflt)"
proof -
  have "py_in ''_ml'' (pre @ ''_ml'' @ tok)" unfolding py_in_iff by blast
  then show ?thesis
    unfolding get_max_length_from_dir_eq using split_from_last_marker [OF assms] by simp
qed

lemma digit_facts:
  assumes "is_digit c"
  shows "(of_char c :: nat) < 127" "(of_char c :: nat) < 128" "\<not> is_space c"
    "c \<noteq> CHR ''+''" "c \<noteq> CHR ''-''" "c \<noteq> CHR ''_''"
  using assms by (auto simp: is_digit_def is_space_def)

lemma scan_ok_digits: "list_all is_digit ds \<Longrightarrow> scan_ok prev ds = (ds \<noteq> [] \<or> prev \<noteq> CHR ''_'')"
  by (induction ds arbitrary: prev) (auto simp: digit_facts)

lemma to_ascii_digits: "list_all is_digit ds \<Longrightarrow> to_ascii ds = ds"
proof -
  assume "list_all is_digit ds"
  then have "list_all (\<lambda>ch. (of_char ch :: nat) < 128) ds"
    by (induction ds) (simp_all add: digit_facts)
  then show ?thesis by (simp add: to_ascii_def)
qed

lemma takeWhile_digits:
  "list_all is_digit ds \<Longrightarrow> takeWhile (\<lambda>c. is_digit c \<or> c = CHR ''_'') ds = ds"
  by (induction ds) simp_all

lemma dropWhile_digits:
  "list_all is_digit ds \<Longrightarrow> dropWhile (\<lambda>c. is_digit c \<or> c = CHR ''_'') ds = []"
  by (induction ds) simp_all

lemma filter_digits: "list_all is_digit ds \<Longrightarrow> filter is_digit ds = ds"
  by (induction ds) simp_all

lemma py_int_digits:
  assumes "ds \<noteq> []" "list_all is_digit ds" "length ds \<le> 640"
  shows "py_int msd ds = Inr (int (decimal_value ds))"
proof -
  from assms obtain c r where ds: "ds = c # r" and c: "is_digit c" by (cases ds) auto
  have str: "dropWhile is_space (to_ascii ds) = ds"
    using assms(2) c by (simp add: to_ascii_digits ds digit_facts)
  show ?thesis
    unfolding py_int_def str
    using assms c
    by (simp add: ds digit_facts takeWhile_digits dropWhile_digits filter_digits scan_ok_digits)
qed

lemma py_int_minus_digits:
  assumes "ds \<noteq> []" "list_all is_digit ds" "length ds \<le> 640"
  shows "py_int msd (CHR ''-'' # ds) = Inr (- int (decimal_value ds))"
proof -
  from assms obtain c r where ds: "ds = c # r" and c: "is_digit c" by (cases ds) auto
  have "list_all (\<lambda>ch. (of_char ch :: nat) < 128) ds"
    using assms(2) by (induction ds) (simp_all add: digit_facts)
  then have str: "dropWhile is_space (to_ascii (CHR ''-'' # ds)) = CHR ''-'' # ds"
    by (simp add: to_ascii_def is_space_def)
  show ?thesis
    unfolding py_int_def str
    using assms c
    by (simp add: ds digit_facts takeWhile_digits dropWhile_digits filter_digits scan_ok_digits)
qed

lemma not_digit_underscore: "\<not> is_digit CHR ''_''"
  by (simp add: is_digit_def)

lemma digits_no_marker: "list_all is_digit ds \<Longrightarrow> \<not> py_in ''_ml'' ds"
  by (induction ds) (auto simp: not_digit_underscore)

lemma minus_digits_no_marker: "list_all is_digit ds \<Longrightarrow> \<not> py_in ''_ml'' (CHR ''-'' # ds)"
  by (simp add: digits_no_marker)

lemma py_int_xyz: "py_int msd ''xyz'' = Inl ValueError"
  by (simp add: py_int_def to_ascii_def is_space_def is_digit_def)

lemma decimal_examples:
  "decimal_value ''32'' = 32" "decimal_value ''64'' = 64" "decimal_value ''5'' = 5"
  "decimal_value ''0'' = 0"
  by (simp_all add: decimal_value_def digit_value_def)

lemma digit_examples:
  "list_all is_digit ''32''" "list_all is_digit ''64''" "list_all is_digit ''5''"
  "list_all is_digit ''0''"
  by (simp_all add: is_digit_def)

lemma py_int_examples:
  "py_int msd ''32'' = Inr 32" "py_int msd ''64'' = Inr 64" "py_int msd ''0'' = Inr 0"
  "py_int msd ''-5'' = Inr (- 5)"
  using py_int_digits [of "''32''" msd] py_int_digits [of "''64''" msd]
    py_int_digits [of "''0''" msd] py_int_minus_digits [of "''5''" msd]
  by (simp_all add: decimal_examples is_digit_def)

lemma no_marker_examples:
  "\<not> py_in ''_ml'' ''32''" "\<not> py_in ''_ml'' ''64''" "\<not> py_in ''_ml'' ''0''"
  "\<not> py_in ''_ml'' ''-5''" "\<not> py_in ''_ml'' ''xyz''" "\<not> py_in ''_ml'' ''bart_minimal_variant''"
  by simp_all

lemma get_max_length_from_dir_examples:
  "get_max_length_from_dir msd ''bart_minimal_ml32'' dflt = Inr 32"
  "get_max_length_from_dir msd ''bart_minimal_variant'' dflt = Inr dflt"
  "get_max_length_from_dir msd ''bart_minimal_mlxyz'' dflt = Inr dflt"
  "get_max_length_from_dir msd ''bart_minimal_ml32_ml64'' dflt = Inr 64"
  "get_max_length_from_dir msd ''bart_minimal_ml-5'' dflt = Inr (- 5)"
  "get_max_length_from_dir msd ''bart_minimal_ml0'' dflt = Inr 0"
proof -
  show "get_max_length_from_dir msd ''bart_minimal_ml32'' dflt = Inr 32"
    using get_max_length_from_dir_token [OF no_marker_examples(1), of msd "''bart_minimal''" dflt]
    by (simp add: py_int_examples)
  show "get_max_length_from_dir msd ''bart_minimal_variant'' dflt = Inr dflt"
    using no_marker_examples(6) by (simp only: get_max_length_from_dir_def if_False)
  show "get_max_length_from_dir msd ''bart_minimal_mlxyz'' dflt = Inr dflt"
    using get_max_length_from_dir_token [OF no_marker_examples(5), of msd "''bart_minimal''" dflt]
    by (simp add: py_int_xyz)
  show "get_max_length_from_dir msd ''bart_minimal_ml32_ml64'' dflt = Inr 64"
    using get_max_length_from_dir_token [OF no_marker_examples(2), of msd "''bart_minimal_ml32''" dflt]
    by (simp add: py_int_examples)
  show "get_max_length_from_dir msd ''bart_minimal_ml-5'' dflt = Inr (- 5)"
    using get_max_length_from_dir_token [OF no_marker_examples(4), of msd "''bart_minimal''" dflt]
    by (simp add: py_int_examples)
  show "get_max_length_from_dir msd ''bart_minimal_ml0'' dflt = Inr 0"
    using get_max_length_from_dir_token [OF no_marker_examples(3), of msd "''bart_minimal''" dflt]
    by (simp add: py_int_examples)
qed

lemma get_max_length_from_dir_digits:
  assumes "ds \<noteq> []" "list_all is_digit ds" "length ds \<le> 640"
  shows "get_max_length_from_dir msd (pre @ ''_ml'' @ ds) dflt = Inr (int (decimal_value ds))"
    and "get_max_length_from_dir msd (pre @ ''_ml-'' @ ds) dflt = Inr (- int (decimal_value ds))"
proof -
  show "get_max_length_from_dir msd (pre @ ''_ml'' @ ds) dflt = Inr (int (decimal_value ds))"
    unfolding get_max_length_from_dir_token [OF digits_no_marker [OF assms(2)]]
    by (simp add: py_int_digits [OF assms])
  have eq: "pre @ ''_ml-'' @ ds = pre @ ''_ml'' @ (CHR ''-'' # ds)" by simp
  have "get_max_length_from_dir msd (pre @ ''_ml'' @ (CHR ''-'' # ds)) dflt
          = Inr (- int (decimal_value ds))"
    unfolding get_max_length_from_dir_token [OF minus_digits_no_marker [OF assms(2)]]
    by (simp add: py_int_minus_digits [OF assms])
  then show "get_max_length_from_dir msd (pre @ ''_ml-'' @ ds) dflt = Inr (- int (decimal_value ds))"
    by (simp only: eq)
qed



text \<open>
  Claim C4.  For every directory name, every default and every digit limit,
  \<^verbatim>\<open>get_max_length_from_dir\<close> returns a value and raises no exception; when the text
  after the last marker does not convert to an integer, the value is the default.
\<close>

theorem get_max_length_from_dir_never_raises:
  "(\<exists>n. get_max_length_from_dir msd d dflt = Inr n) \<and>
   (\<forall>e. get_max_length_from_dir msd d dflt \<noteq> Inl e) \<and>
   (\<forall>pre tok e. d = pre @ ''_ml'' @ tok \<and> \<not> py_in ''_ml'' tok \<and> py_int msd tok = Inl e \<longrightarrow>
      get_max_length_from_dir msd d dflt = Inr dflt)"
proof (intro conjI allI impI)
  show "\<exists>n. get_max_length_from_dir msd d dflt = Inr n"
    unfolding get_max_length_from_dir_eq by blast
next
  fix e
  show "get_max_length_from_dir msd d dflt \<noteq> Inl e"
    unfolding get_max_length_from_dir_eq by simp
next
  fix pre tok e
  assume "d = pre @ ''_ml'' @ tok \<and> \<not> py_in ''_ml'' tok \<and> py_int msd tok = Inl e"
  then have d: "d = pre @ ''_ml'' @ tok" and n: "\<not> py_in ''_ml'' tok"
    and e: "py_int msd tok = Inl e" by blast+
  show "get_max_length_from_dir msd d dflt = Inr dflt"
    unfolding d get_max_length_from_dir_token [OF n] by (simp add: e)
qed

theorem get_max_length_from_dir_never_raises_witness:
  "''bart_minimal_mlxyz'' = ''bart_minimal'' @ ''_ml'' @ ''xyz'' \<and> \<not> py_in ''_ml'' ''xyz'' \<and>
   py_int 4300 ''xyz'' = Inl ValueError \<and>
   get_max_length_from_dir 4300 ''bart_minimal_mlxyz'' 128 = Inr 128"
proof -
  have h: "''bart_minimal_mlxyz'' = ''bart_minimal'' @ ''_ml'' @ ''xyz'' \<and> \<not> py_in ''_ml'' ''xyz'' \<and>
           py_int 4300 ''xyz'' = Inl ValueError"
    by (simp add: py_int_xyz)
  from get_max_length_from_dir_never_raises [of 4300 "''bart_minimal_mlxyz''" 128]
  have "\<forall>pre tok e. ''bart_minimal_mlxyz'' = pre @ ''_ml'' @ tok \<and> \<not> py_in ''_ml'' tok \<and>
          py_int 4300 tok = Inl e \<longrightarrow>
          get_max_length_from_dir 4300 ''bart_minimal_mlxyz'' 128 = Inr 128"
    by (elim conjE)
  with h have "get_max_length_from_dir 4300 ''bart_minimal_mlxyz'' 128 = Inr 128"
    by blast
  with h show ?thesis by blast
qed

text \<open>
  Claim C9.  The text converted is the one after the last occurrence of \<open>_ml\<close>, whatever
  precedes it (\<open>bart_minimal_ml32_ml64\<close> gives 64); a minus sign before the digits is
  accepted and gives the negated value, which is never positive (\<open>bart_minimal_ml-5\<close>
  gives -5), and \<open>bart_minimal_ml0\<close> gives 0: nothing checks that the result is positive.
\<close>

theorem get_max_length_from_dir_last_marker_signed:
  "(\<forall>pre tok. d = pre @ ''_ml'' @ tok \<and> \<not> py_in ''_ml'' tok \<longrightarrow>
      get_max_length_from_dir msd d dflt =
        Inr (case py_int msd tok of Inr n \<Rightarrow> n | Inl e \<Rightarrow> dflt)) \<and>
   (\<forall>pre ds. d = pre @ ''_ml-'' @ ds \<and> ds \<noteq> [] \<and> list_all is_digit ds \<and> length ds \<le> 640 \<longrightarrow>
      get_max_length_from_dir msd d dflt = Inr (- int (decimal_value ds)) \<and>
      - int (decimal_value ds) \<le> 0) \<and>
   get_max_length_from_dir msd ''bart_minimal_ml32_ml64'' dflt = Inr 64 \<and>
   get_max_length_from_dir msd ''bart_minimal_ml-5'' dflt = Inr (- 5) \<and>
   get_max_length_from_dir msd ''bart_minimal_ml0'' dflt = Inr 0"
proof (intro conjI allI impI)
  fix pre tok
  assume "d = pre @ ''_ml'' @ tok \<and> \<not> py_in ''_ml'' tok"
  then have d: "d = pre @ ''_ml'' @ tok" and n: "\<not> py_in ''_ml'' tok" by blast+
  show "get_max_length_from_dir msd d dflt =
          Inr (case py_int msd tok of Inr n \<Rightarrow> n | Inl e \<Rightarrow> dflt)"
    unfolding d by (rule get_max_length_from_dir_token [OF n])
next
  fix pre ds
  assume "d = pre @ ''_ml-'' @ ds \<and> ds \<noteq> [] \<and> list_all is_digit ds \<and> length ds \<le> 640"
  then have d: "d = pre @ ''_ml-'' @ ds" and h: "ds \<noteq> []" "list_all is_digit ds" "length ds \<le> 640"
    by blast+
  show "get_max_length_from_dir msd d dflt = Inr (- int (decimal_value ds))"
    unfolding d by (rule get_max_length_from_dir_digits(2) [OF h])
next
  fix pre ds
  show "- int (decimal_value ds) \<le> 0" by simp
next
  show "get_max_length_from_dir msd ''bart_minimal_ml32_ml64'' dflt = Inr 64"
    by (rule get_max_length_from_dir_examples)
next
  show "get_max_length_from_dir msd ''bart_minimal_ml-5'' dflt = Inr (- 5)"
    by (rule get_max_length_from_dir_examples)
next
  show "get_max_length_from_dir msd ''bart_minimal_ml0'' dflt = Inr 0"
    by (rule get_max_length_from_dir_examples)
qed

theorem get_max_length_from_dir_last_marker_signed_witness:
  "''bart_minimal_ml32_ml64'' = ''bart_minimal_ml32'' @ ''_ml'' @ ''64'' \<and> \<not> py_in ''_ml'' ''64'' \<and>
   py_int 4300 ''64'' = Inr 64 \<and>
   get_max_length_from_dir 4300 ''bart_minimal_ml32_ml64'' 128 = Inr 64 \<and>
   ''bart_minimal_ml-5'' = ''bart_minimal'' @ ''_ml-'' @ ''5'' \<and> ''5'' \<noteq> [] \<and>
   list_all is_digit ''5'' \<and> length ''5'' \<le> 640 \<and> - int (decimal_value ''5'') = - 5 \<and>
   get_max_length_from_dir 4300 ''bart_minimal_ml-5'' 128 = Inr (- 5)"
proof -
  have h1: "''bart_minimal_ml32_ml64'' = ''bart_minimal_ml32'' @ ''_ml'' @ ''64'' \<and>
            \<not> py_in ''_ml'' ''64''"
    by simp
  have p: "py_int 4300 ''64'' = Inr 64" by (rule py_int_examples)
  from get_max_length_from_dir_last_marker_signed [of "''bart_minimal_ml32_ml64''" 4300 128]
  have "\<forall>pre tok. ''bart_minimal_ml32_ml64'' = pre @ ''_ml'' @ tok \<and> \<not> py_in ''_ml'' tok \<longrightarrow>
          get_max_length_from_dir 4300 ''bart_minimal_ml32_ml64'' 128 =
            Inr (case py_int 4300 tok of Inr n \<Rightarrow> n | Inl e \<Rightarrow> 128)"
    by (elim conjE)
  with h1 have "get_max_length_from_dir 4300 ''bart_minimal_ml32_ml64'' 128 =
            Inr (case py_int 4300 ''64'' of Inr n \<Rightarrow> n | Inl e \<Rightarrow> 128)"
    by blast
  then have r1: "get_max_length_from_dir 4300 ''bart_minimal_ml32_ml64'' 128 = Inr 64"
    by (simp add: p)
  have h2: "''bart_minimal_ml-5'' = ''bart_minimal'' @ ''_ml-'' @ ''5'' \<and> ''5'' \<noteq> [] \<and>
            list_all is_digit ''5'' \<and> length ''5'' \<le> 640"
    by (simp add: is_digit_def)
  from get_max_length_from_dir_last_marker_signed [of "''bart_minimal_ml-5''" 4300 128]
  have "\<forall>pre ds. ''bart_minimal_ml-5'' = pre @ ''_ml-'' @ ds \<and> ds \<noteq> [] \<and> list_all is_digit ds \<and>
          length ds \<le> 640 \<longrightarrow>
          get_max_length_from_dir 4300 ''bart_minimal_ml-5'' 128 = Inr (- int (decimal_value ds)) \<and>
          - int (decimal_value ds) \<le> 0"
    by (elim conjE)
  with h2 have "get_max_length_from_dir 4300 ''bart_minimal_ml-5'' 128
                  = Inr (- int (decimal_value ''5''))"
    by blast
  then have r2: "get_max_length_from_dir 4300 ''bart_minimal_ml-5'' 128 = Inr (- 5)"
    by (simp add: decimal_examples)
  have d: "- int (decimal_value ''5'') = - 5" by (simp add: decimal_examples)
  from h1 p r1 h2 d r2 show ?thesis by blast
qed

section \<open>Properties of the dataset loader\<close>

lemma dropna_required:
  assumes "''True Transcription'' \<in> set (columns data)"
    and "''Predicted Transcription'' \<in> set (columns data)"
  shows "dropna [''True Transcription'', ''Predicted Transcription''] data =
           Inr (data\<lparr>rows := filter (\<lambda>(l, r). \<not> absent data ''True Transcription'' r \<and>
                                              \<not> absent data ''Predicted Transcription'' r)
                                     (rows data)\<rparr>)"
  using assms by (simp add: dropna_def absent_def)

lemma map_snd_filter_snd:
  "map snd (filter (\<lambda>(l, r). P r) xs) = filter P (map snd xs)"
  by (induction xs) auto

lemma reset_index_drop_rows:
  "map snd (rows (reset_index_drop df)) = map snd (rows df)"
  "map fst (rows (reset_index_drop df)) = [0..<length (rows df)]"
  "length (rows (reset_index_drop df)) = length (rows df)"
  "columns (reset_index_drop df) = columns df"
  by (simp_all add: reset_index_drop_def)

lemma load_data_required:
  assumes "''True Transcription'' \<in> set (columns data)"
    and "''Predicted Transcription'' \<in> set (columns data)"
  shows "load_data (Inr data) =
           Inr (reset_index_drop (data\<lparr>rows := filter (\<lambda>(l, r). \<not> absent data ''True Transcription'' r \<and>
                                              \<not> absent data ''Predicted Transcription'' r)
                                     (rows data)\<rparr>))"
  by (simp add: load_data_def bind_err_def dropna_required [OF assms])

lemma example_table_loaded:
  "load_data (Inr example_table) =
     Inr \<lparr>columns = [''True Transcription'', ''Predicted Transcription''],
          rows = [(0, [Str ''a cat'', Str ''a cot'']),
                  (1, [Str ''hi there'', Str ''hi their'']),
                  (2, [Str ''yes'', Str ''yes''])]\<rparr>"
  by (simp add: load_data_def bind_err_def dropna_def reset_index_drop_def example_table_def
      cell_at_def)

text \<open>
  Claim C1.  For every input table that has the two required columns, the loader returns
  the table with the same columns whose rows are, in their original order, exactly the
  rows in which neither the ground truth nor the baseline prediction is absent, relabelled
  0, 1, 2, ...; a table of four rows of which exactly three are complete yields three
  samples.
\<close>

theorem load_data_drops_incomplete_rows:
  assumes "''True Transcription'' \<in> set (columns data)"
    and "''Predicted Transcription'' \<in> set (columns data)"
  shows "\<exists>out. load_data (Inr data) = Inr out \<and>
           columns out = columns data \<and>
           map snd (rows out) =
             filter (\<lambda>r. \<not> absent data ''True Transcription'' r \<and>
                         \<not> absent data ''Predicted Transcription'' r) (map snd (rows data)) \<and>
           map fst (rows out) = [0..<length (rows out)] \<and>
           (\<forall>a b c d. map snd (rows data) = [a, b, c, d] \<and>
              length (filter (\<lambda>r. \<not> absent data ''True Transcription'' r \<and>
                                  \<not> absent data ''Predicted Transcription'' r) [a, b, c, d]) = 3 \<longrightarrow>
              length (rows out) = 3)"
proof -
  let ?keep = "\<lambda>r. \<not> absent data ''True Transcription'' r \<and> \<not> absent data ''Predicted Transcription'' r"
  let ?kept = "data\<lparr>rows := filter (\<lambda>(l, r). ?keep r) (rows data)\<rparr>"
  let ?out = "reset_index_drop ?kept"
  have l: "load_data (Inr data) = Inr ?out" by (rule load_data_required [OF assms])
  have c: "columns ?out = columns data" by (simp add: reset_index_drop_rows)
  have "map snd (rows ?out) = map snd (rows ?kept)" by (rule reset_index_drop_rows)
  also have "\<dots> = filter ?keep (map snd (rows data))" by (simp add: map_snd_filter_snd)
  finally have s: "map snd (rows ?out) = filter ?keep (map snd (rows data))" .
  have f: "map fst (rows ?out) = [0..<length (rows ?out)]"
    by (simp only: reset_index_drop_rows)
  have n: "\<forall>a b c d. map snd (rows data) = [a, b, c, d] \<and>
              length (filter ?keep [a, b, c, d]) = 3 \<longrightarrow> length (rows ?out) = 3"
  proof (intro allI impI)
    fix a b c d
    assume h: "map snd (rows data) = [a, b, c, d] \<and> length (filter ?keep [a, b, c, d]) = 3"
    have "length (rows ?out) = length (map snd (rows ?out))" by simp
    also have "\<dots> = length (filter ?keep [a, b, c, d])" using h by (simp only: s)
    also have "\<dots> = 3" using h by blast
    finally show "length (rows ?out) = 3" .
  qed
  from l c s f n show ?thesis by blast
qed

theorem load_data_drops_incomplete_rows_witness:
  "''True Transcription'' \<in> set (columns example_table) \<and>
   ''Predicted Transcription'' \<in> set (columns example_table) \<and>
   load_data (Inr example_table) =
     Inr \<lparr>columns = [''True Transcription'', ''Predicted Transcription''],
          rows = [(0, [Str ''a cat'', Str ''a cot'']),
                  (1, [Str ''hi there'', Str ''hi their'']),
                  (2, [Str ''yes'', Str ''yes''])]\<rparr> \<and>
   map snd (rows example_table) =
     [[Str ''a cat'', Str ''a cot''], [Str ''hi there'', Str ''hi their''],
      [Str ''good day'', Num NaN], [Str ''yes'', Str ''yes'']] \<and>
   \<not> absent example_table ''True Transcription'' [Str ''good day'', Num NaN] \<and>
   absent example_table ''Predicted Transcription'' [Str ''good day'', Num NaN] \<and>
   length (filter (\<lambda>r. \<not> absent example_table ''True Transcription'' r \<and>
                       \<not> absent example_table ''Predicted Transcription'' r)
            (map snd (rows example_table))) = 3"
proof -
  have c: "''True Transcription'' \<in> set (columns example_table)"
    "''Predicted Transcription'' \<in> set (columns example_table)"
    by (simp_all add: example_table_def)
  from load_data_drops_incomplete_rows [OF c] example_table_loaded
  show ?thesis
    by (simp add: example_table_def absent_def cell_at_def)
qed

lemma example_table_dropna:
  "dropna [''True Transcription'', ''Predicted Transcription''] example_table =
     Inr \<lparr>columns = [''True Transcription'', ''Predicted Transcription''],
          rows = [(0, [Str ''a cat'', Str ''a cot'']),
                  (1, [Str ''hi there'', Str ''hi their'']),
                  (3, [Str ''yes'', Str ''yes''])]\<rparr>"
  by (simp add: dropna_def example_table_def cell_at_def)

text \<open>
  Claim C2, as stated, fails: the row of \<open>example_table\<close> labelled 2 has its ground truth
  and lacks only its baseline prediction, and it is dropped.
\<close>

theorem dropna_drops_row_missing_one_field:
  "rows example_table ! 2 = (2, [Str ''good day'', Num NaN]) \<and>
   \<not> absent example_table ''True Transcription'' [Str ''good day'', Num NaN] \<and>
   absent example_table ''Predicted Transcription'' [Str ''good day'', Num NaN] \<and>
   dropna [''True Transcription'', ''Predicted Transcription''] example_table =
     Inr \<lparr>columns = [''True Transcription'', ''Predicted Transcription''],
          rows = [(0, [Str ''a cat'', Str ''a cot'']),
                  (1, [Str ''hi there'', Str ''hi their'']),
                  (3, [Str ''yes'', Str ''yes''])]\<rparr> \<and>
   (2, [Str ''good day'', Num NaN]) \<notin>
     set [(0, [Str ''a cat'', Str ''a cot'']), (1, [Str ''hi there'', Str ''hi their'']),
          (3::nat, [Str ''yes'', Str ''yes''])]"
  using example_table_dropna by (simp add: example_table_def absent_def cell_at_def)

text \<open>
  Claim C2, amended.  For every input table that has the two required columns, a row is
  dropped if and only if at least one of its two required fields is absent: every dropped
  row lacks at least one of them, no row with both present is dropped, and a row lacking
  exactly one is dropped.
\<close>

theorem dropna_drops_exactly_rows_missing_a_field:
  assumes "''True Transcription'' \<in> set (columns data)"
    and "''Predicted Transcription'' \<in> set (columns data)"
  shows "\<exists>out. dropna [''True Transcription'', ''Predicted Transcription''] data = Inr out \<and>
           set (rows out) \<subseteq> set (rows data) \<and>
           (\<forall>row \<in> set (rows data).
              (row \<notin> set (rows out)) =
              (absent data ''True Transcription'' (snd row) \<or>
               absent data ''Predicted Transcription'' (snd row)))"
proof -
  let ?out = "data\<lparr>rows := filter (\<lambda>(l, r). \<not> absent data ''True Transcription'' r \<and>
                                        \<not> absent data ''Predicted Transcription'' r) (rows data)\<rparr>"
  have d: "dropna [''True Transcription'', ''Predicted Transcription''] data = Inr ?out"
    by (rule dropna_required [OF assms])
  have s: "set (rows ?out) \<subseteq> set (rows data)" by auto
  have m: "\<forall>row \<in> set (rows data).
              (row \<notin> set (rows ?out)) =
              (absent data ''True Transcription'' (snd row) \<or>
               absent data ''Predicted Transcription'' (snd row))"
    by auto
  from d s m show ?thesis by blast
qed

theorem dropna_drops_exactly_rows_missing_a_field_witness:
  "''True Transcription'' \<in> set (columns example_table) \<and>
   ''Predicted Transcription'' \<in> set (columns example_table) \<and>
   dropna [''True Transcription'', ''Predicted Transcription''] example_table =
     Inr \<lparr>columns = [''True Transcription'', ''Predicted Transcription''],
          rows = [(0, [Str ''a cat'', Str ''a cot'']),
                  (1, [Str ''hi there'', Str ''hi their'']),
                  (3, [Str ''yes'', Str ''yes''])]\<rparr> \<and>
   (2, [Str ''good day'', Num NaN]) \<in> set (rows example_table) \<and>
   absent example_table ''Predicted Transcription'' (snd (2::nat, [Str ''good day'', Num NaN])) \<and>
   (3, [Str ''yes'', Str ''yes'']) \<in> set (rows example_table) \<and>
   \<not> absent example_table ''True Transcription'' (snd (3::nat, [Str ''yes'', Str ''yes''])) \<and>
   \<not> absent example_table ''Predicted Transcription'' (snd (3::nat, [Str ''yes'', Str ''yes'']))"
proof -
  have c: "''True Transcription'' \<in> set (columns example_table)"
    "''Predicted Transcription'' \<in> set (columns example_table)"
    by (simp_all add: example_table_def)
  from dropna_drops_exactly_rows_missing_a_field [OF c] example_table_dropna
  show ?thesis
    by (simp add: example_table_def absent_def cell_at_def)
qed

section \<open>Properties of the evaluation run\<close>

lemma then_run_emit: "then_run (emit e) f = (e # fst (f ()), snd (f ()))"
  by (simp add: then_run_def emit_def split: prod.splits)

lemma then_run_cons:
  "then_run (e # es, r) f = (e # fst (then_run (es, r) f), snd (then_run (es, r) f))"
  by (simp add: then_run_def split: sum.splits prod.splits)

lemma then_run_lift_Inr: "then_run (lift_err (Inr x)) f = f x"
  by (simp add: then_run_def lift_err_def split: prod.splits)

lemma then_run_lift_Inl: "then_run (lift_err (Inl e)) f = ([], Inl (Raised e))"
  by (simp add: then_run_def lift_err_def)

lemma write_reports_starts:
  "\<exists>rest r. write_reports ext model_dir results_per_sample =
     ([Print (''Saving per-sample evaluation results to '' @ model_dir @
              ''_detailed_evaluation.csv'' @ ''...''),
       WriteCsv (model_dir @ ''_detailed_evaluation.csv'')
         (columns (DataFrame results_per_sample))
         (map snd (rows (DataFrame results_per_sample)))] @ rest, r)"
  unfolding write_reports_def Let_def then_run_emit to_csv_def
  by (simp add: prod_eq_iff)

lemma evaluate_model_starts:
  "\<exists>rest r. evaluate_model ext refs origs model_dir =
     (Print (CHR 0x0A # ''Evaluating BART model in: '' @ model_dir) # rest, r)"
  unfolding evaluate_model_def then_run_emit by (simp add: prod_eq_iff)

lemma load_data_columns:
  assumes "load_data r = Inr data"
  shows "''True Transcription'' \<in> set (columns data) \<and>
         ''Predicted Transcription'' \<in> set (columns data)"
  using assms
  by (auto simp: load_data_def bind_err_Inr_iff dropna_def reset_index_drop_def split: if_splits)

lemma main_after_loading:
  assumes "load_data (read_csv ext ''llm_evaluation_summary.csv'') = Inr data"
    and "getitem data ''True Transcription'' = Inr refs"
    and "getitem data ''Predicted Transcription'' = Inr origs"
    and "tfidf_fit ext (refs @ origs) = Inr ()"
  shows "main ext =
     (let model_dirs = filter (\<lambda>d. isdir ext d \<and> prefix ''bart_minimal'' d) (listdir ext);
          continue =
            (if model_dirs = [] then
               then_run (emit (Print ''No BART model directories found matching 'bart_minimal*'. Exiting.''))
                 (\<lambda>_. ([], Inl (Exited 0)))
             else
               then_run (for_each (evaluate_model ext refs origs) model_dirs) (\<lambda>_.
               emit (Print (CHR 0x0A # ''BART Evaluation complete and saved.''))))
      in (Print ''Loading test data...'' # fst continue, snd continue))"
  unfolding main_def then_run_emit
  by (simp only: assms then_run_lift_Inr Let_def)

text \<open>
  Claim C8, as stated, fails: the data is loaded before the model directories are looked
  for, so with no matching directory and an input file that cannot be read the process
  prints the loading line only and ends with the reader's exception, not with the message
  and a clean exit.
\<close>

theorem main_fails_before_discovery_without_input:
  "filter (\<lambda>d. isdir (example_externals\<lparr>listdir := [''notes.txt''],
                       read_csv := (\<lambda>path. Inl (LibraryError ''FileNotFoundError''))\<rparr>) d \<and>
                prefix ''bart_minimal'' d)
     (listdir (example_externals\<lparr>listdir := [''notes.txt''],
        read_csv := (\<lambda>path. Inl (LibraryError ''FileNotFoundError''))\<rparr>)) = [] \<and>
   main (example_externals\<lparr>listdir := [''notes.txt''],
           read_csv := (\<lambda>path. Inl (LibraryError ''FileNotFoundError''))\<rparr>) =
     ([Print ''Loading test data...''], Inl (Raised (LibraryError ''FileNotFoundError''))) \<and>
   main (example_externals\<lparr>listdir := [''notes.txt''],
           read_csv := (\<lambda>path. Inl (LibraryError ''FileNotFoundError''))\<rparr>) \<noteq>
     ([Print ''Loading test data...'',
       Print ''No BART model directories found matching 'bart_minimal*'. Exiting.''],
      Inl (Exited 0))"
  by (simp add: main_def then_run_emit then_run_lift_Inl load_data_def bind_err_def
      example_externals_def)

text \<open>
  Claim C8, amended.  Once the data is loaded and the vector space is built: if no entry of
  the working directory is a directory whose name starts with \<open>bart_minimal\<close>, the process
  prints the loading line and the message that no model directory was found, writes no
  file, and ends by \<^verbatim>\<open>exit()\<close> with status 0; otherwise it goes on to evaluate the first
  such directory.
\<close>

theorem main_without_model_dirs_exits_cleanly:
  assumes "load_data (read_csv ext ''llm_evaluation_summary.csv'') = Inr data"
    and "getitem data ''True Transcription'' = Inr refs"
    and "getitem data ''Predicted Transcription'' = Inr origs"
    and "tfidf_fit ext (refs @ origs) = Inr ()"
  shows "(filter (\<lambda>d. isdir ext d \<and> prefix ''bart_minimal'' d) (listdir ext) = [] \<longrightarrow>
            main ext =
              ([Print ''Loading test data...'',
                Print ''No BART model directories found matching 'bart_minimal*'. Exiting.''],
               Inl (Exited 0))) \<and>
         (\<forall>d ds. filter (\<lambda>d. isdir ext d \<and> prefix ''bart_minimal'' d) (listdir ext) = d # ds \<longrightarrow>
            (\<exists>rest r. main ext =
               (Print ''Loading test data...'' #
                Print (CHR 0x0A # ''Evaluating BART model in: '' @ d) # rest, r)))"
proof (intro conjI allI impI)
  assume "filter (\<lambda>d. isdir ext d \<and> prefix ''bart_minimal'' d) (listdir ext) = []"
  then show "main ext =
              ([Print ''Loading test data...'',
                Print ''No BART model directories found matching 'bart_minimal*'. Exiting.''],
               Inl (Exited 0))"
    unfolding main_after_loading [OF assms] by (simp add: then_run_emit)
next
  fix d ds
  assume dirs: "filter (\<lambda>d. isdir ext d \<and> prefix ''bart_minimal'' d) (listdir ext) = d # ds"
  obtain rest r where e: "evaluate_model ext refs origs d =
      (Print (CHR 0x0A # ''Evaluating BART model in: '' @ d) # rest, r)"
    using evaluate_model_starts by blast
  let ?k = "\<lambda>_::unit. emit (Print (CHR 0x0A # ''BART Evaluation complete and saved.''))"
  let ?loop = "then_run (for_each (evaluate_model ext refs origs) (d # ds)) ?k"
  have "for_each (evaluate_model ext refs origs) (d # ds) =
          (Print (CHR 0x0A # ''Evaluating BART model in: '' @ d) #
             fst (then_run (rest, r) (\<lambda>_. for_each (evaluate_model ext refs origs) ds)),
           snd (then_run (rest, r) (\<lambda>_. for_each (evaluate_model ext refs origs) ds)))"
    by (simp only: for_each.simps e then_run_cons)
  then obtain rest' r' where "?loop = (Print (CHR 0x0A # ''Evaluating BART model in: '' @ d) # rest', r')"
    by (simp add: then_run_cons)
  then have "main ext = (Print ''Loading test data...'' #
                Print (CHR 0x0A # ''Evaluating BART model in: '' @ d) # rest', r')"
    unfolding main_after_loading [OF assms] Let_def dirs by simp
  then show "\<exists>rest r. main ext =
               (Print ''Loading test data...'' #
                Print (CHR 0x0A # ''Evaluating BART model in: '' @ d) # rest, r)"
    by blast
qed

lemma example_loaded_columns:
  "getitem \<lparr>columns = [''True Transcription'', ''Predicted Transcription''],
          rows = [(0, [Str ''a cat'', Str ''a cot'']),
                  (1, [Str ''hi there'', Str ''hi their'']),
                  (2, [Str ''yes'', Str ''yes''])]\<rparr> ''True Transcription''
     = Inr [Str ''a cat'', Str ''hi there'', Str ''yes'']"
  "getitem \<lparr>columns = [''True Transcription'', ''Predicted Transcription''],
          rows = [(0, [Str ''a cat'', Str ''a cot'']),
                  (1, [Str ''hi there'', Str ''hi their'']),
                  (2, [Str ''yes'', Str ''yes''])]\<rparr> ''Predicted Transcription''
     = Inr [Str ''a cot'', Str ''hi their'', Str ''yes'']"
  by (simp_all add: getitem_def cell_at_def)

theorem main_without_model_dirs_exits_cleanly_witness:
  "load_data (read_csv (example_externals\<lparr>listdir := [''notes.txt'']\<rparr>) ''llm_evaluation_summary.csv'')
     = Inr \<lparr>columns = [''True Transcription'', ''Predicted Transcription''],
            rows = [(0, [Str ''a cat'', Str ''a cot'']),
                    (1, [Str ''hi there'', Str ''hi their'']),
                    (2, [Str ''yes'', Str ''yes''])]\<rparr> \<and>
   tfidf_fit (example_externals\<lparr>listdir := [''notes.txt'']\<rparr>)
     ([Str ''a cat'', Str ''hi there'', Str ''yes''] @ [Str ''a cot'', Str ''hi their'', Str ''yes'']) = Inr () \<and>
   filter (\<lambda>d. isdir (example_externals\<lparr>listdir := [''notes.txt'']\<rparr>) d \<and> prefix ''bart_minimal'' d)
     (listdir (example_externals\<lparr>listdir := [''notes.txt'']\<rparr>)) = [] \<and>
   main (example_externals\<lparr>listdir := [''notes.txt'']\<rparr>) =
     ([Print ''Loading test data...'',
       Print ''No BART model directories found matching 'bart_minimal*'. Exiting.''],
      Inl (Exited 0))"
proof -
  let ?ext = "example_externals\<lparr>listdir := [''notes.txt'']\<rparr>"
  have l: "load_data (read_csv ?ext ''llm_evaluation_summary.csv'')
     = Inr \<lparr>columns = [''True Transcription'', ''Predicted Transcription''],
            rows = [(0, [Str ''a cat'', Str ''a cot'']),
                    (1, [Str ''hi there'', Str ''hi their'']),
                    (2, [Str ''yes'', Str ''yes''])]\<rparr>"
    by (simp add: example_externals_def example_table_loaded)
  have t: "tfidf_fit ?ext
     ([Str ''a cat'', Str ''hi there'', Str ''yes''] @ [Str ''a cot'', Str ''hi their'', Str ''yes'']) = Inr ()"
    by (simp add: example_externals_def)
  have f: "filter (\<lambda>d. isdir ?ext d \<and> prefix ''bart_minimal'' d) (listdir ?ext) = []"
    by (simp add: example_externals_def)
  from main_without_model_dirs_exits_cleanly [OF l example_loaded_columns t] f
  have "main ?ext =
     ([Print ''Loading test data...'',
       Print ''No BART model directories found matching 'bart_minimal*'. Exiting.''],
      Inl (Exited 0))"
    by blast
  with l t f show ?thesis by blast
qed

lemma frame_columns_same_keys:
  assumes "\<forall>d \<in> set records. map fst d = keys"
  shows "foldl (\<lambda>cols d. cols @ filter (\<lambda>k. k \<notin> set cols) (map fst d)) keys records = keys"
  using assms by (induction records) simp_all

lemma frame_columns_records:
  assumes "records \<noteq> []" and "\<forall>d \<in> set records. map fst d = keys"
  shows "frame_columns records = keys"
proof -
  from assms obtain d ds where r: "records = d # ds" by (cases records) auto
  with assms(2) have "map fst d = keys" "\<forall>d \<in> set ds. map fst d = keys" by simp_all
  then show ?thesis
    unfolding frame_columns_def r by (simp add: frame_columns_same_keys)
qed

lemma sample_record_keys:
  "map fst (sample_record m ref orig bart w c b s) =
     [''Model'', ''True Transcription'', ''Original Prediction'', ''BART Corrected'',
      ''WER'', ''CER'', ''BLEU'', ''Cosine Similarity'']"
  by (simp add: sample_record_def)

lemma sample_record_cells:
  "map (\<lambda>c. case map_of (sample_record m ref orig bart w c' b s) c of Some v \<Rightarrow> v | None \<Rightarrow> Num NaN)
     [''Model'', ''True Transcription'', ''Original Prediction'', ''BART Corrected'',
      ''WER'', ''CER'', ''BLEU'', ''Cosine Similarity'']
   = map snd (sample_record m ref orig bart w c' b s)"
  by (simp add: sample_record_def)

lemma score_samples_Inr:
  "score_samples ext m origs i pairs = Inr rs \<Longrightarrow>
   length rs = length pairs \<and>
   (\<forall>k < length pairs. \<exists>w c b s.
      wer ext (fst (pairs ! k)) (snd (pairs ! k)) = Inr w \<and>
      cer ext (fst (pairs ! k)) (snd (pairs ! k)) = Inr c \<and>
      bleu ext (fst (pairs ! k)) (snd (pairs ! k)) = Inr b \<and>
      cosine ext (i + k) (snd (pairs ! k)) = Inr s \<and>
      i + k < length origs \<and>
      rs ! k = sample_record m (fst (pairs ! k)) (origs ! (i + k)) (snd (pairs ! k)) w c b s)"
proof (induction pairs arbitrary: i rs)
  case Nil
  then show ?case by simp
next
  case (Cons p pairs)
  obtain ref bart where p: "p = (ref, bart)" by (cases p)
  from Cons.prems obtain w c b s orig rest where
    w: "wer ext ref bart = Inr w" and c: "cer ext ref bart = Inr c"
    and b: "bleu ext ref bart = Inr b" and s: "cosine ext i bart = Inr s"
    and o: "getitem_at origs i = Inr orig"
    and rest: "score_samples ext m origs (Suc i) pairs = Inr rest"
    and rs: "rs = sample_record m ref orig bart w c b s # rest"
    unfolding p by (auto simp: bind_err_Inr_iff)
  from o have il: "i < length origs" and oi: "orig = origs ! i"
    by (auto simp: getitem_at_def split: if_splits)
  note IH = Cons.IH [OF rest]
  have len: "length rs = length (p # pairs)" using IH rs by simp
  have "\<exists>w c b s.
      wer ext (fst ((p # pairs) ! k)) (snd ((p # pairs) ! k)) = Inr w \<and>
      cer ext (fst ((p # pairs) ! k)) (snd ((p # pairs) ! k)) = Inr c \<and>
      bleu ext (fst ((p # pairs) ! k)) (snd ((p # pairs) ! k)) = Inr b \<and>
      cosine ext (i + k) (snd ((p # pairs) ! k)) = Inr s \<and>
      i + k < length origs \<and>
      rs ! k = sample_record m (fst ((p # pairs) ! k)) (origs ! (i + k))
                 (snd ((p # pairs) ! k)) w c b s"
    if k: "k < length (p # pairs)" for k
  proof (cases k)
    case 0
    with w c b s il oi rs p show ?thesis by simp
  next
    case (Suc j)
    with k have "j < length pairs" by simp
    with IH Suc rs show ?thesis by simp
  qed
  with len show ?case by blast
qed

lemma score_samples_keys:
  assumes "score_samples ext m origs i pairs = Inr rs"
  shows "\<forall>d \<in> set rs. map fst d =
     [''Model'', ''True Transcription'', ''Original Prediction'', ''BART Corrected'',
      ''WER'', ''CER'', ''BLEU'', ''Cosine Similarity''] \<and>
     map (\<lambda>c. case map_of d c of Some v \<Rightarrow> v | None \<Rightarrow> Num NaN)
       [''Model'', ''True Transcription'', ''Original Prediction'', ''BART Corrected'',
        ''WER'', ''CER'', ''BLEU'', ''Cosine Similarity''] = map snd d"
proof
  fix d assume "d \<in> set rs"
  then obtain k where k: "k < length rs" and d: "d = rs ! k" by (auto simp: in_set_conv_nth)
  from score_samples_Inr [OF assms] k obtain ref orig bart w c b s where
    "rs ! k = sample_record m ref orig bart w c b s" by fastforce
  with d show "map fst d =
     [''Model'', ''True Transcription'', ''Original Prediction'', ''BART Corrected'',
      ''WER'', ''CER'', ''BLEU'', ''Cosine Similarity''] \<and>
     map (\<lambda>c. case map_of d c of Some v \<Rightarrow> v | None \<Rightarrow> Num NaN)
       [''Model'', ''True Transcription'', ''Original Prediction'', ''BART Corrected'',
        ''WER'', ''CER'', ''BLEU'', ''Cosine Similarity''] = map snd d"
    by (simp only: sample_record_keys sample_record_cells)
qed

lemma DataFrame_scored:
  assumes "score_samples ext m origs i pairs = Inr rs" and "rs \<noteq> []"
  shows "columns (DataFrame rs) =
     [''Model'', ''True Transcription'', ''Original Prediction'', ''BART Corrected'',
      ''WER'', ''CER'', ''BLEU'', ''Cosine Similarity'']"
    and "map snd (rows (DataFrame rs)) = map (map snd) rs"
proof -
  note k = score_samples_keys [OF assms(1)]
  have cols: "frame_columns rs =
     [''Model'', ''True Transcription'', ''Original Prediction'', ''BART Corrected'',
      ''WER'', ''CER'', ''BLEU'', ''Cosine Similarity'']"
    using frame_columns_records [OF assms(2)] k by blast
  show "columns (DataFrame rs) =
     [''Model'', ''True Transcription'', ''Original Prediction'', ''BART Corrected'',
      ''WER'', ''CER'', ''BLEU'', ''Cosine Similarity'']"
    by (simp add: DataFrame_def Let_def cols)
  have "map snd (rows (DataFrame rs)) =
          map (\<lambda>d. map (\<lambda>c. case map_of d c of Some v \<Rightarrow> v | None \<Rightarrow> Num NaN)
       [''Model'', ''True Transcription'', ''Original Prediction'', ''BART Corrected'',
        ''WER'', ''CER'', ''BLEU'', ''Cosine Similarity'']) rs"
    by (simp add: DataFrame_def Let_def cols)
  also have "\<dots> = map (map snd) rs"
    using k by (intro map_cong) auto
  finally show "map snd (rows (DataFrame rs)) = map (map snd) rs" .
qed

lemma example_scored:
  "score_samples example_externals ''bart_minimal_ml32'' [Str ''a cot''] 0 (zip [Str ''a cat''] [''a cat''])
     = Inr [sample_record ''bart_minimal_ml32'' (Str ''a cat'') (Str ''a cot'') ''a cat''
              (Fin 0) (Fin 0) (Fin 100) (Fin 1)]"
  by (simp add: example_externals_def bind_err_def getitem_at_def)

text \<open>
  Claim C6, as stated, fails: for one sample scored under \<open>bart_minimal_ml32\<close>, the header
  of the detailed table written is the list with \<open>BART Corrected\<close> in fourth place, not
  \<open>Corrected Output\<close>.
\<close>

theorem detailed_csv_header_is_not_corrected_output:
  "score_samples example_externals ''bart_minimal_ml32'' [Str ''a cot''] 0 (zip [Str ''a cat''] [''a cat''])
     = Inr [sample_record ''bart_minimal_ml32'' (Str ''a cat'') (Str ''a cot'') ''a cat''
              (Fin 0) (Fin 0) (Fin 100) (Fin 1)] \<and>
   take 2 (fst (write_reports example_externals ''bart_minimal_ml32''
              [sample_record ''bart_minimal_ml32'' (Str ''a cat'') (Str ''a cot'') ''a cat''
                 (Fin 0) (Fin 0) (Fin 100) (Fin 1)])) =
     [Print ''Saving per-sample evaluation results to bart_minimal_ml32_detailed_evaluation.csv...'',
      WriteCsv ''bart_minimal_ml32_detailed_evaluation.csv''
        [''Model'', ''True Transcription'', ''Original Prediction'', ''BART Corrected'',
         ''WER'', ''CER'', ''BLEU'', ''Cosine Similarity'']
        [[Str ''bart_minimal_ml32'', Str ''a cat'', Str ''a cot'', Str ''a cat'',
          Num (Fin 0), Num (Fin 0), Num (Fin 100), Num (Fin 1)]]] \<and>
   [''Model'', ''True Transcription'', ''Original Prediction'', ''BART Corrected'',
    ''WER'', ''CER'', ''BLEU'', ''Cosine Similarity''] \<noteq>
   [''Model'', ''True Transcription'', ''Original Prediction'', ''Corrected Output'',
    ''WER'', ''CER'', ''BLEU'', ''Cosine Similarity'']"
proof -
  let ?rs = "[sample_record ''bart_minimal_ml32'' (Str ''a cat'') (Str ''a cot'') ''a cat''
                 (Fin 0) (Fin 0) (Fin 100) (Fin 1)]"
  obtain rest r where w: "write_reports example_externals ''bart_minimal_ml32'' ?rs =
     ([Print (''Saving per-sample evaluation results to '' @ ''bart_minimal_ml32'' @
              ''_detailed_evaluation.csv'' @ ''...''),
       WriteCsv (''bart_minimal_ml32'' @ ''_detailed_evaluation.csv'')
         (columns (DataFrame ?rs)) (map snd (rows (DataFrame ?rs)))] @ rest, r)"
    using write_reports_starts by blast
  have ne: "?rs \<noteq> []" by simp
  have "take 2 (fst (write_reports example_externals ''bart_minimal_ml32'' ?rs)) =
     [Print (''Saving per-sample evaluation results to '' @ ''bart_minimal_ml32'' @
              ''_detailed_evaluation.csv'' @ ''...''),
       WriteCsv (''bart_minimal_ml32'' @ ''_detailed_evaluation.csv'')
         (columns (DataFrame ?rs)) (map snd (rows (DataFrame ?rs)))]"
    unfolding w by simp
  then show ?thesis
    unfolding DataFrame_scored [OF example_scored ne]
    using example_scored by (simp add: sample_record_def)
qed

text \<open>
  Claim C6, amended.  For every model whose samples were scored, at least one of them, the
  detailed table written to \<open><model_dir>_detailed_evaluation.csv\<close> has exactly the columns
  Model, True Transcription, Original Prediction, BART Corrected, WER, CER, BLEU, Cosine
  Similarity, in this order, and one row per sample, in order, holding the model
  directory, the sample's reference, baseline prediction and corrected text, and its four
  metric values as computed.
\<close>

theorem detailed_csv_columns_and_rows:
  assumes "score_samples ext model_dir original_predictions 0 (zip references bart_predictions)
             = Inr results_per_sample"
    and "results_per_sample \<noteq> []"
  shows "(\<exists>rest r. write_reports ext model_dir results_per_sample =
            ([Print (''Saving per-sample evaluation results to '' @ model_dir @
                     ''_detailed_evaluation.csv'' @ ''...''),
              WriteCsv (model_dir @ ''_detailed_evaluation.csv'')
                [''Model'', ''True Transcription'', ''Original Prediction'', ''BART Corrected'',
                 ''WER'', ''CER'', ''BLEU'', ''Cosine Similarity'']
                (map (map snd) results_per_sample)] @ rest, r)) \<and>
         length results_per_sample = length (zip references bart_predictions) \<and>
         (\<forall>k < length results_per_sample. \<exists>w c b s.
            wer ext (references ! k) (bart_predictions ! k) = Inr w \<and>
            cer ext (references ! k) (bart_predictions ! k) = Inr c \<and>
            bleu ext (references ! k) (bart_predictions ! k) = Inr b \<and>
            cosine ext k (bart_predictions ! k) = Inr s \<and>
            map snd (results_per_sample ! k) =
              [Str model_dir, references ! k, original_predictions ! k, Str (bart_predictions ! k),
               Num w, Num c, Num b, Num s])"
proof -
  note df = DataFrame_scored [OF assms]
  have a: "\<exists>rest r. write_reports ext model_dir results_per_sample =
            ([Print (''Saving per-sample evaluation results to '' @ model_dir @
                     ''_detailed_evaluation.csv'' @ ''...''),
              WriteCsv (model_dir @ ''_detailed_evaluation.csv'')
                [''Model'', ''True Transcription'', ''Original Prediction'', ''BART Corrected'',
                 ''WER'', ''CER'', ''BLEU'', ''Cosine Similarity'']
                (map (map snd) results_per_sample)] @ rest, r)"
    using write_reports_starts [of ext model_dir results_per_sample] unfolding df .
  note sc = score_samples_Inr [OF assms(1)]
  from sc have len: "length results_per_sample = length (zip references bart_predictions)"
    by blast
  have rows: "\<exists>w c b s.
            wer ext (references ! k) (bart_predictions ! k) = Inr w \<and>
            cer ext (references ! k) (bart_predictions ! k) = Inr c \<and>
            bleu ext (references ! k) (bart_predictions ! k) = Inr b \<and>
            cosine ext k (bart_predictions ! k) = Inr s \<and>
            map snd (results_per_sample ! k) =
              [Str model_dir, references ! k, original_predictions ! k, Str (bart_predictions ! k),
               Num w, Num c, Num b, Num s]"
    if k: "k < length results_per_sample" for k
  proof -
    from k len have kz: "k < length (zip references bart_predictions)" by simp
    then have kr: "k < length references" and kb: "k < length bart_predictions" by simp_all
    from sc kz obtain w c b s where
      "wer ext (fst (zip references bart_predictions ! k)) (snd (zip references bart_predictions ! k)) = Inr w"
      "cer ext (fst (zip references bart_predictions ! k)) (snd (zip references bart_predictions ! k)) = Inr c"
      "bleu ext (fst (zip references bart_predictions ! k)) (snd (zip references bart_predictions ! k)) = Inr b"
      "cosine ext (0 + k) (snd (zip references bart_predictions ! k)) = Inr s"
      "results_per_sample ! k =
         sample_record model_dir (fst (zip references bart_predictions ! k))
           (original_predictions ! (0 + k)) (snd (zip references bart_predictions ! k)) w c b s"
      by blast
    with kr kb show ?thesis by (simp add: sample_record_def)
  qed
  from a len rows show ?thesis by blast
qed

theorem detailed_csv_columns_and_rows_witness:
  "score_samples example_externals ''bart_minimal_ml32'' [Str ''a cot''] 0 (zip [Str ''a cat''] [''a cat''])
     = Inr [sample_record ''bart_minimal_ml32'' (Str ''a cat'') (Str ''a cot'') ''a cat''
              (Fin 0) (Fin 0) (Fin 100) (Fin 1)] \<and>
   [sample_record ''bart_minimal_ml32'' (Str ''a cat'') (Str ''a cot'') ''a cat''
      (Fin 0) (Fin 0) (Fin 100) (Fin 1)] \<noteq> [] \<and>
   length [sample_record ''bart_minimal_ml32'' (Str ''a cat'') (Str ''a cot'') ''a cat''
      (Fin 0) (Fin 0) (Fin 100) (Fin 1)] = length (zip [Str ''a cat''] [''a cat'']) \<and>
   (\<exists>rest r. write_reports example_externals ''bart_minimal_ml32''
       [sample_record ''bart_minimal_ml32'' (Str ''a cat'') (Str ''a cot'') ''a cat''
          (Fin 0) (Fin 0) (Fin 100) (Fin 1)] =
      ([Print (''Saving per-sample evaluation results to '' @ ''bart_minimal_ml32'' @
               ''_detailed_evaluation.csv'' @ ''...''),
        WriteCsv (''bart_minimal_ml32'' @ ''_detailed_evaluation.csv'')
          [''Model'', ''True Transcription'', ''Original Prediction'', ''BART Corrected'',
           ''WER'', ''CER'', ''BLEU'', ''Cosine Similarity'']
          (map (map snd) [sample_record ''bart_minimal_ml32'' (Str ''a cat'') (Str ''a cot'') ''a cat''
             (Fin 0) (Fin 0) (Fin 100) (Fin 1)])] @ rest, r))"
proof -
  have ne: "[sample_record ''bart_minimal_ml32'' (Str ''a cat'') (Str ''a cot'') ''a cat''
      (Fin 0) (Fin 0) (Fin 100) (Fin 1)] \<noteq> []" by simp
  from detailed_csv_columns_and_rows [OF example_scored ne] example_scored ne
  show ?thesis by blast
qed

text \<open>
  The detailed table of a model whose samples were scored holds numbers in its four metric
  columns, so \<^verbatim>\<open>count_outliers\<close> returns on it.
\<close>

lemma between_numbers:
  "\<forall>c \<in> set cs. \<exists>x. c = Num x \<Longrightarrow> \<exists>bs. between lo hi cs = Inr bs"
proof (induction cs)
  case Nil
  show ?case by simp
next
  case (Cons c cs)
  then obtain x bs where "c = Num x" "between lo hi cs = Inr bs" by auto
  then show ?case by (simp add: bind_err_def)
qed

lemma scored_rows_numeric:
  assumes "score_samples ext m origs i pairs = Inr rs" and "rs \<noteq> []"
    and "row \<in> set (rows (DataFrame rs))"
  shows "\<exists>ref orig bart w c b s.
           snd row = [Str m, ref, orig, Str bart, Num w, Num c, Num b, Num s]"
proof -
  from assms(3) have "snd row \<in> set (map snd (rows (DataFrame rs)))" by simp
  then have "snd row \<in> set (map (map snd) rs)"
    by (simp only: DataFrame_scored(2) [OF assms(1,2)])
  then obtain d where d: "d \<in> set rs" and r: "snd row = map snd d" by auto
  from d obtain k where k: "k < length rs" and dk: "d = rs ! k" by (auto simp: in_set_conv_nth)
  from score_samples_Inr [OF assms(1)] k obtain ref orig bart w c b s where
    "rs ! k = sample_record m ref orig bart w c b s" by fastforce
  with dk r have "snd row = [Str m, ref, orig, Str bart, Num w, Num c, Num b, Num s]"
    by (simp add: sample_record_def)
  then show ?thesis by blast
qed

lemma scored_outlier_condition:
  assumes "score_samples ext m origs i pairs = Inr rs" and "rs \<noteq> []"
    and "metric \<in> set [''WER'', ''CER'', ''BLEU'', ''Cosine Similarity'']"
  shows "\<exists>cond. outlier_condition (DataFrame rs) metric lo hi = Inr cond"
proof -
  let ?df = "DataFrame rs"
  note cols = DataFrame_scored(1) [OF assms(1,2)]
  have g: "getitem ?df metric = Inr (map (\<lambda>(l, r). cell_at (columns ?df) r metric) (rows ?df))"
    using assms(3) by (auto simp: getitem_def cols)
  have "\<forall>c \<in> set (map (\<lambda>(l, r). cell_at (columns ?df) r metric) (rows ?df)). \<exists>x. c = Num x"
  proof
    fix c assume "c \<in> set (map (\<lambda>(l, r). cell_at (columns ?df) r metric) (rows ?df))"
    then obtain row where row: "row \<in> set (rows ?df)"
      and c: "c = cell_at (columns ?df) (snd row) metric" by (auto simp: split_def)
    from scored_rows_numeric [OF assms(1,2) row] obtain ref orig bart w c' b s where
      "snd row = [Str m, ref, orig, Str bart, Num w, Num c', Num b, Num s]" by blast
    with c assms(3) show "\<exists>x. c = Num x"
      by (auto simp: cols cell_at_def)
  qed
  from between_numbers [OF this] obtain bs where
    "between lo hi (map (\<lambda>(l, r). cell_at (columns ?df) r metric) (rows ?df)) = Inr bs" by blast
  with g show ?thesis by (simp add: outlier_condition_def bind_err_def)
qed

lemma count_outliers_scored:
  assumes "score_samples ext m origs i pairs = Inr rs" and "rs \<noteq> []"
  shows "\<exists>oc. count_outliers (DataFrame rs) = Inr oc"
proof -
  note oc = scored_outlier_condition [OF assms]
  obtain b where b: "outlier_condition (DataFrame rs) ''BLEU'' (Fin 0) (Fin 100) = Inr b"
    using oc [of "''BLEU''"] by auto
  obtain w where w: "outlier_condition (DataFrame rs) ''WER'' (Fin 0) (Fin 1) = Inr w"
    using oc [of "''WER''"] by auto
  obtain c where c: "outlier_condition (DataFrame rs) ''CER'' (Fin 0) (Fin 1) = Inr c"
    using oc [of "''CER''"] by auto
  obtain s where s: "outlier_condition (DataFrame rs) ''Cosine Similarity'' (Fin 0) (Fin 1) = Inr s"
    using oc [of "''Cosine Similarity''"] by auto
  show ?thesis
    by (simp add: count_outliers_def outlier_conditions_def b w c s bind_err_def Let_def)
qed

end
